theory Spec2Isabelle
  imports Complex_Main "HOL-Library.Word"
begin

section \<open>The AMQP session layer of azure-servicebus (\<open>_pyamqp/session.py\<close>)\<close>

text \<open>
  The class \<open>Session\<close> is embedded as a record that is passed through every method and
  returned updated. Python integers are unbounded, so every counter is an \<open>int\<close>.
  An attribute that starts as \<open>None\<close> is an \<open>option\<close>. A raised exception is a value:
  a method that can raise returns the exception together with the session as it was
  mutated up to the raise. Logging (\<open>_LOGGER\<close>, \<open>network_trace\<close>) has no effect on the
  session and is left out.
\<close>

subsection \<open>Constants and performatives\<close>

datatype session_state =
  UNMAPPED | BEGIN_SENT | BEGIN_RCVD | MAPPED | END_SENT | END_RCVD | DISCARDING

datatype session_transfer_state = OKAY | ERROR | BUSY

datatype role = Sender | Receiver

datatype error_condition = SessionUnattachedHandle | LinkDetachForced | OtherCondition string

text \<open>
  The exception classes the session code raises or catches. \<open>KeyboardInterrupt\<close> stands for
  the exceptions that are not subclasses of \<open>Exception\<close>.
\<close>

datatype exn = ValueError | KeyError | StopIteration | TypeError | OtherException | KeyboardInterrupt

fun is_Exception :: "exn \<Rightarrow> bool" where
  "is_Exception KeyboardInterrupt = False"
| "is_Exception _ = True"

type_synonym bytes = "8 word list"

type_synonym fields = "(string \<times> string) list"

record amqp_error =
  condition :: error_condition
  description :: "string option"
  info :: "fields option"

record begin_frame =
  bf_remote_channel :: "int option"
  bf_next_outgoing_id :: int
  bf_incoming_window :: int
  bf_outgoing_window :: int
  bf_handle_max :: int
  bf_offered_capabilities :: "string list option"
  bf_desired_capabilities :: "string list option"
  bf_properties :: "fields option"

record flow_frame =
  ff_next_incoming_id :: "int option"
  ff_incoming_window :: int
  ff_next_outgoing_id :: int
  ff_outgoing_window :: int
  ff_handle :: "int option"
  ff_delivery_count :: "int option"
  ff_link_credit :: "int option"
  ff_available :: "int option"
  ff_drain :: "bool option"
  ff_echo :: "bool option"
  ff_properties :: "fields option"

record transfer_frame =
  tf_handle :: int
  tf_delivery_id :: "int option"
  tf_delivery_tag :: "bytes option"
  tf_message_format :: "int option"
  tf_settled :: "bool option"
  tf_more :: "bool option"
  tf_rcv_settle_mode :: "string option"
  tf_state :: "string option"
  tf_resume :: "bool option"
  tf_aborted :: "bool option"
  tf_batchable :: "bool option"
  tf_payload :: bytes

record attach_frame =
  af_name :: string
  af_handle :: int
  af_role :: role
  af_source :: string
  af_target :: string

record detach_frame =
  df_handle :: int
  df_closed :: "bool option"
  df_error :: "amqp_error option"

record disposition_frame =
  dp_role :: role
  dp_first :: int
  dp_last :: "int option"
  dp_settled :: "bool option"
  dp_state :: "string option"

datatype performative =
  BeginFrame begin_frame
| EndFrame "amqp_error option"
| FlowFrame flow_frame
| TransferFrame transfer_frame
| AttachFrame attach_frame
| DetachFrame detach_frame
| DispositionFrame disposition_frame

subsection \<open>The connection, the links and the session\<close>

text \<open>
  Modelled from the spec: the \<open>Connection\<close> class is not among the sources. The spec has
  it accept every outgoing frame of a session for transmission through
  \<open>process_outgoing_frame(channel, performative)\<close>; the model keeps the frames handed over, in
  order, together with the peer's maximum frame size that \<open>_outgoing_transfer\<close> reads and
  the errors with which \<open>close(error=...)\<close> was called.
\<close>

record connection =
  remote_max_frame_size :: int
  outgoing :: "(int \<times> performative) list"
  close_requests :: "amqp_error option list"

definition process_outgoing_frame :: "int \<Rightarrow> performative \<Rightarrow> connection \<Rightarrow> connection" where
  "process_outgoing_frame ch fr c = c\<lparr>outgoing := outgoing c @ [(ch, fr)]\<rparr>"

definition connection_close :: "amqp_error option \<Rightarrow> connection \<Rightarrow> connection" where
  "connection_close err c = c\<lparr>close_requests := close_requests c @ [err]\<rparr>"

text \<open>
  A link object as the session holds it: the values its constructor receives. What a link
  does when the session calls it is a parameter of the model (\<open>link_ops\<close> below).
\<close>

record link =
  link_name :: string
  link_role :: role
  link_handle :: int
  link_address :: string

text \<open>
  A Python \<open>dict\<close> is an association list with distinct keys in insertion order:
  \<open>d[k] = v\<close> keeps the place of a key that is present and appends a new key at the end.
\<close>

type_synonym ('k, 'v) dict = "('k \<times> 'v) list"

text \<open>
  The keys of \<open>self.links\<close>: the name of a link as a \<open>str\<close>, or the name as the \<open>bytes\<close> of an
  Attach frame, under which \<open>_incoming_attach\<close> stores a link the peer opened.
\<close>

datatype link_key = StrKey string | BytesKey string

fun dict_set :: "('k, 'v) dict \<Rightarrow> 'k \<Rightarrow> 'v \<Rightarrow> ('k, 'v) dict" where
  "dict_set [] k v = [(k, v)]"
| "dict_set ((k', v') # d) k v = (if k' = k then (k, v) # d else (k', v') # dict_set d k v)"

definition dict_get :: "('k, 'v) dict \<Rightarrow> 'k \<Rightarrow> exn + 'v" where
  "dict_get d k = (case map_of d k of None \<Rightarrow> Inl KeyError | Some v \<Rightarrow> Inr v)"

definition dict_keys :: "('k, 'v) dict \<Rightarrow> 'k list" where
  "dict_keys d = map fst d"

definition dict_values :: "('k, 'v) dict \<Rightarrow> 'v list" where
  "dict_values d = map snd d"

record 'w session =
  name :: string
  state :: session_state
  handle_max :: int
  properties :: "fields option"
  remote_properties :: "fields option"
  channel :: int
  remote_channel :: "int option"
  next_outgoing_id :: int
  next_incoming_id :: "int option"
  incoming_window :: int
  outgoing_window :: int
  target_incoming_window :: int
  remote_incoming_window :: int
  remote_outgoing_window :: int
  offered_capabilities :: "string list option"
  desired_capabilities :: "string list option"
  allow_pipelined_open :: bool
  links :: "(link_key, link) dict"
  connection :: connection
  output_handles :: "(int, link) dict"
  input_handles :: "(int, link) dict"
  link_world :: 'w

text \<open>
  \<open>link_world\<close> is the state of the link objects themselves, which the session never reads.
  A statement of a method takes the session and returns it with the exception raised, if any.
\<close>

type_synonym 'w stmt = "'w session \<Rightarrow> exn option \<times> 'w session"

definition send :: "performative \<Rightarrow> 'w session \<Rightarrow> 'w session" where
  "send fr s = s\<lparr>connection := process_outgoing_frame (channel s) fr (connection s)\<rparr>"

definition sent :: "'w session \<Rightarrow> performative list" where
  "sent s = map snd (outgoing (connection s))"

subsection \<open>Python slices\<close>

text \<open>
  \<open>xs[a:b]\<close> and \<open>xs[a:]\<close> for integer bounds: a negative bound counts from the end, and
  every bound is clamped to the length.
\<close>

definition slice_bound :: "nat \<Rightarrow> int \<Rightarrow> nat" where
  "slice_bound n i = (if i < 0 then nat (max 0 (i + int n)) else min (nat i) n)"

definition slice :: "'a list \<Rightarrow> int \<Rightarrow> int \<Rightarrow> 'a list" where
  "slice xs a b =
     (let lo = slice_bound (length xs) a; hi = slice_bound (length xs) b
      in take (hi - lo) (drop lo xs))"

definition slice_from :: "'a list \<Rightarrow> int \<Rightarrow> 'a list" where
  "slice_from xs a = drop (slice_bound (length xs) a) xs"

subsection \<open>\<open>_outgoing_transfer\<close>\<close>

record delivery =
  frame :: transfer_frame
  transfer_state :: "session_transfer_state option"

text \<open>
  \<open>TransferFrame(payload=p, **tmp_delivery_frame)\<close>: the fields of \<open>delivery.frame\<close>, the
  session's \<open>next_outgoing_id\<close> as the delivery id, and the given \<open>more\<close> flag and payload.
\<close>

definition tmp_delivery_frame :: "delivery \<Rightarrow> int \<Rightarrow> bool \<Rightarrow> bytes \<Rightarrow> transfer_frame" where
  "tmp_delivery_frame d nid more_flag p =
     \<lparr>tf_handle = tf_handle (frame d),
      tf_delivery_id = Some nid,
      tf_delivery_tag = tf_delivery_tag (frame d),
      tf_message_format = tf_message_format (frame d),
      tf_settled = tf_settled (frame d),
      tf_more = Some more_flag,
      tf_rcv_settle_mode = tf_rcv_settle_mode (frame d),
      tf_state = tf_state (frame d),
      tf_resume = tf_resume (frame d),
      tf_aborted = tf_aborted (frame d),
      tf_batchable = tf_batchable (frame d),
      tf_payload = p\<rparr>"

text \<open>
  The \<open>while remaining_payload_cnt > available_frame_size\<close> loop. With a frame capacity that
  is not positive the loop of the source does not end; the model then has no result.
\<close>

partial_function (option) transfer_loop ::
  "delivery \<Rightarrow> bytes \<Rightarrow> int \<Rightarrow> int \<Rightarrow> int \<Rightarrow> 'w session \<Rightarrow> (int \<times> int \<times> 'w session) option"
where
  "transfer_loop d payload available_frame_size start_idx remaining_payload_cnt s =
     (if remaining_payload_cnt > available_frame_size then
        transfer_loop d payload available_frame_size
          (start_idx + available_frame_size)
          (remaining_payload_cnt - available_frame_size)
          (send (TransferFrame (tmp_delivery_frame d (next_outgoing_id s) True
                   (slice payload start_idx (start_idx + available_frame_size)))) s)
      else Some (start_idx, remaining_payload_cnt, s))"

declare transfer_loop.simps [code]

text \<open>
  \<open>encode_frame\<close> is not among the sources: \<open>enc\<close> is the length of the encoding of a
  transfer frame, and only its value on the frame with the empty payload is used.
  The first test is an \<open>if\<close> without \<open>else\<close>, the second an \<open>if\<close> with \<open>else\<close>, as in the source.
\<close>

definition outgoing_transfer ::
  "(transfer_frame \<Rightarrow> nat) \<Rightarrow> delivery \<Rightarrow> 'w session \<Rightarrow> (delivery \<times> 'w session) option"
where
  "outgoing_transfer enc d0 s =
     (let d1 = (if state s \<noteq> MAPPED then d0\<lparr>transfer_state := Some ERROR\<rparr> else d0)
      in if remote_incoming_window s \<le> 0 then Some (d1\<lparr>transfer_state := Some BUSY\<rparr>, s)
         else
           let payload = tf_payload (frame d1);
               payload_size = int (length payload);
               d2 = d1\<lparr>frame := (frame d1)\<lparr>tf_delivery_id := Some (next_outgoing_id s)\<rparr>\<rparr>;
               d3 = d2\<lparr>frame := (frame d2)\<lparr>tf_payload := []\<rparr>\<rparr>;
               transfer_overhead_size = int (enc (frame d3));
               available_frame_size =
                 remote_max_frame_size (connection s) - transfer_overhead_size - 8
           in case transfer_loop d3 payload available_frame_size 0 payload_size s of
                None \<Rightarrow> None
              | Some (start_idx, remaining_payload_cnt, s1) \<Rightarrow>
                  let s2 = send (TransferFrame (tmp_delivery_frame d3 (next_outgoing_id s1) False
                                   (slice_from payload start_idx))) s1;
                      s3 = s2\<lparr>next_outgoing_id := next_outgoing_id s2 + 1\<rparr>;
                      s4 = s3\<lparr>remote_incoming_window := remote_incoming_window s3 - 1\<rparr>;
                      s5 = s4\<lparr>outgoing_window := outgoing_window s4 - 1\<rparr>
                  in Some (d3\<lparr>transfer_state := Some OKAY\<rparr>, s5))"

subsection \<open>Calls into the links\<close>

text \<open>
  The classes \<open>SenderLink\<close> and \<open>ReceiverLink\<close> are not among the sources. Each method of
  a link that the session calls is a parameter: a statement that may change the session
  (a link holds a reference to it), may change the links' own state, and may raise.
\<close>

record 'w link_ops =
  on_session_state_change :: "link \<Rightarrow> 'w stmt"
  detach :: "link \<Rightarrow> amqp_error option \<Rightarrow> 'w stmt"
  link_incoming_attach :: "link \<Rightarrow> attach_frame \<Rightarrow> 'w stmt"
  link_incoming_transfer :: "link \<Rightarrow> transfer_frame \<Rightarrow> 'w stmt"
  link_incoming_flow :: "link \<Rightarrow> flow_frame \<Rightarrow> 'w stmt"
  link_incoming_detach :: "link \<Rightarrow> detach_frame \<Rightarrow> 'w stmt"
  is_closed :: "link \<Rightarrow> 'w session \<Rightarrow> bool"

text \<open>
  \<open>for x in xs: f(x)\<close>, left at the first exception. The list is the one the loop starts with.
\<close>

fun for_each :: "('a \<Rightarrow> 'w stmt) \<Rightarrow> 'a list \<Rightarrow> 'w stmt" where
  "for_each f [] s = (None, s)"
| "for_each f (x # xs) s =
     (case f x s of
        (None, s') \<Rightarrow> for_each f xs s'
      | (Some e, s') \<Rightarrow> (Some e, s'))"

text \<open>Two statements in sequence: the second runs when the first did not raise.\<close>

definition seq :: "'w stmt \<Rightarrow> 'w stmt \<Rightarrow> 'w stmt" where
  "seq f g s = (case f s of (None, s') \<Rightarrow> g s' | (Some e, s') \<Rightarrow> (Some e, s'))"

definition pure :: "('w session \<Rightarrow> 'w session) \<Rightarrow> 'w stmt" where
  "pure f s = (None, f s)"

subsection \<open>\<open>__init__\<close>, \<open>_set_state\<close>, \<open>_get_next_output_handle\<close>\<close>

definition Session_init ::
  "connection \<Rightarrow> int \<Rightarrow> string \<Rightarrow> int \<Rightarrow> int \<Rightarrow> int \<Rightarrow> int \<Rightarrow> 'w \<Rightarrow> 'w session"
where
  "Session_init conn ch nm hmax next_out in_win out_win w =
     \<lparr>name = nm, state = UNMAPPED, handle_max = hmax, properties = None,
      remote_properties = None, channel = ch, remote_channel = None,
      next_outgoing_id = next_out, next_incoming_id = None,
      incoming_window = in_win, outgoing_window = out_win,
      target_incoming_window = in_win,
      remote_incoming_window = 0, remote_outgoing_window = 0,
      offered_capabilities = None, desired_capabilities = None,
      allow_pipelined_open = True, links = [], connection = conn,
      output_handles = [], input_handles = [], link_world = w\<rparr>"

definition set_state :: "'w link_ops \<Rightarrow> session_state option \<Rightarrow> 'w stmt" where
  "set_state L new_state s =
     (case new_state of
        None \<Rightarrow> (None, s)
      | Some st \<Rightarrow>
          for_each (on_session_state_change L) (dict_values (links s)) (s\<lparr>state := st\<rparr>))"

definition get_next_output_handle :: "'w session \<Rightarrow> exn + int" where
  "get_next_output_handle s =
     (if int (length (output_handles s)) \<ge> handle_max s then Inl ValueError
      else case find (\<lambda>i. i \<notin> set (dict_keys (output_handles s))) [1 .. handle_max s - 1] of
             None \<Rightarrow> Inl StopIteration
           | Some i \<Rightarrow> Inr i)"

subsection \<open>Begin and End\<close>

definition outgoing_begin :: "'w session \<Rightarrow> 'w session" where
  "outgoing_begin s =
     send (BeginFrame
       \<lparr>bf_remote_channel = (if state s = BEGIN_RCVD then remote_channel s else None),
        bf_next_outgoing_id = next_outgoing_id s,
        bf_incoming_window = incoming_window s,
        bf_outgoing_window = outgoing_window s,
        bf_handle_max = handle_max s,
        bf_offered_capabilities = (if state s = BEGIN_RCVD then offered_capabilities s else None),
        bf_desired_capabilities = (if state s = UNMAPPED then desired_capabilities s else None),
        bf_properties = properties s\<rparr>) s"

definition incoming_begin :: "'w link_ops \<Rightarrow> begin_frame \<Rightarrow> 'w stmt" where
  "incoming_begin L fr s =
     (let s1 = s\<lparr>handle_max := bf_handle_max fr\<rparr>;
          s2 = s1\<lparr>next_incoming_id := Some (bf_next_outgoing_id fr)\<rparr>;
          s3 = s2\<lparr>remote_incoming_window := bf_incoming_window fr\<rparr>;
          s4 = s3\<lparr>remote_outgoing_window := bf_outgoing_window fr\<rparr>;
          s5 = s4\<lparr>remote_properties := bf_properties fr\<rparr>
      in if state s5 = BEGIN_SENT then
           set_state L (Some MAPPED) (s5\<lparr>remote_channel := bf_remote_channel fr\<rparr>)
         else if state s5 = UNMAPPED then
           seq (set_state L (Some BEGIN_RCVD))
             (seq (pure outgoing_begin) (set_state L (Some MAPPED))) s5
         else (None, s5))"

definition outgoing_end :: "amqp_error option \<Rightarrow> 'w session \<Rightarrow> 'w session" where
  "outgoing_end err s = send (EndFrame err) s"

definition incoming_end :: "'w link_ops \<Rightarrow> amqp_error option \<Rightarrow> 'w stmt" where
  "incoming_end L fr s =
     seq (if state s \<notin> {END_RCVD, END_SENT, DISCARDING} then
            seq (set_state L (Some END_RCVD))
              (seq (\<lambda>s'. for_each (\<lambda>l. detach L l None) (dict_values (links s')) s')
                 (pure (outgoing_end None)))
          else pure id)
       (set_state L (Some UNMAPPED)) s"

text \<open>
  \<open>begin\<close> and \<open>end\<close> with \<open>wait=False\<close>, the default: \<open>_wait_for_response\<close> then does nothing.
  \<open>AMQPError\<close> is a named tuple of three fields, so \<open>if error\<close> tests \<open>error is not None\<close>.
  The handler of \<open>end\<close> catches the subclasses of \<open>Exception\<close> only.
\<close>

definition begin_session :: "'w link_ops \<Rightarrow> 'w stmt" where
  "begin_session L s =
     seq (pure outgoing_begin)
       (seq (set_state L (Some BEGIN_SENT))
          (\<lambda>s'. if \<not> allow_pipelined_open s' then (Some ValueError, s') else (None, s'))) s"

definition end_body :: "'w link_ops \<Rightarrow> amqp_error option \<Rightarrow> 'w stmt" where
  "end_body L err s =
     seq (pure (\<lambda>s'. if state s' \<notin> {UNMAPPED, DISCARDING} then outgoing_end err s' else s'))
       (seq (\<lambda>s'. for_each (\<lambda>l. detach L l None) (dict_values (links s')) s')
          (set_state L (Some (if err \<noteq> None then DISCARDING else END_SENT)))) s"

definition end_session :: "'w link_ops \<Rightarrow> amqp_error option \<Rightarrow> 'w stmt" where
  "end_session L err s =
     (case end_body L err s of
        (None, s') \<Rightarrow> (None, s')
      | (Some e, s') \<Rightarrow>
          if is_Exception e then set_state L (Some UNMAPPED) s' else (Some e, s'))"

subsection \<open>Flow\<close>

definition empty_flow :: flow_frame where
  "empty_flow =
     \<lparr>ff_next_incoming_id = None, ff_incoming_window = 0, ff_next_outgoing_id = 0,
      ff_outgoing_window = 0, ff_handle = None, ff_delivery_count = None,
      ff_link_credit = None, ff_available = None, ff_drain = None, ff_echo = None,
      ff_properties = None\<rparr>"

text \<open>
  \<open>_outgoing_flow(frame=None)\<close>: the link's fields, when a link passes some, with the four
  session fields written over them.
\<close>

definition outgoing_flow :: "flow_frame option \<Rightarrow> 'w session \<Rightarrow> 'w session" where
  "outgoing_flow fr s =
     (let link_flow = (case fr of None \<Rightarrow> empty_flow | Some f \<Rightarrow> f)
      in send (FlowFrame
           (link_flow\<lparr>ff_next_incoming_id := next_incoming_id s,
                      ff_incoming_window := incoming_window s,
                      ff_next_outgoing_id := next_outgoing_id s,
                      ff_outgoing_window := outgoing_window s\<rparr>)) s)"

text \<open>Python's \<open>a or b\<close> on an optional integer: \<open>None\<close> and \<open>0\<close> are both false.\<close>

definition py_or :: "int option \<Rightarrow> int \<Rightarrow> int" where
  "py_or a b = (case a of None \<Rightarrow> b | Some n \<Rightarrow> if n = 0 then b else n)"

definition incoming_flow :: "'w link_ops \<Rightarrow> flow_frame \<Rightarrow> 'w stmt" where
  "incoming_flow L fr s =
     (let s1 = s\<lparr>next_incoming_id := Some (ff_next_outgoing_id fr)\<rparr>;
          remote_incoming_id = py_or (ff_next_incoming_id fr) (next_outgoing_id s1);
          s2 = s1\<lparr>remote_incoming_window :=
                    remote_incoming_id + ff_incoming_window fr - next_outgoing_id s1\<rparr>;
          s3 = s2\<lparr>remote_outgoing_window := ff_outgoing_window fr\<rparr>
      in case ff_handle fr of
           Some h \<Rightarrow>
             (case dict_get (input_handles s3) h of
                Inl e \<Rightarrow> (Some e, s3)
              | Inr l \<Rightarrow> link_incoming_flow L l fr s3)
         | None \<Rightarrow>
             for_each
               (\<lambda>l s'. if remote_incoming_window s' > 0 \<and> \<not> is_closed L l s'
                        then link_incoming_flow L l fr s' else (None, s'))
               (dict_values (output_handles s3)) s3)"

subsection \<open>Incoming transfers and detaches\<close>

definition unattached_handle_error :: amqp_error where
  "unattached_handle_error =
     \<lparr>condition = SessionUnattachedHandle,
      description = Some (''Invalid handle reference in received frame: '' @
                          ''Handle is not currently associated with an attached link''),
      info = None\<rparr>"

text \<open>
  \<open>next_incoming_id\<close> is \<open>None\<close> until a Begin or a Flow has come in, and \<open>None += 1\<close> raises
  \<open>TypeError\<close>. The \<open>try\<close> covers the lookup of the handle and the call of the link.
\<close>

definition incoming_transfer :: "'w link_ops \<Rightarrow> transfer_frame \<Rightarrow> 'w stmt" where
  "incoming_transfer L fr s =
     (case next_incoming_id s of
        None \<Rightarrow> (Some TypeError, s)
      | Some n \<Rightarrow>
          (let s1 = s\<lparr>next_incoming_id := Some (n + 1)\<rparr>;
               s2 = s1\<lparr>remote_outgoing_window := remote_outgoing_window s1 - 1\<rparr>;
               s3 = s2\<lparr>incoming_window := incoming_window s2 - 1\<rparr>;
               r = (case dict_get (input_handles s3) (tf_handle fr) of
                      Inl e \<Rightarrow> (Some e, s3)
                    | Inr l \<Rightarrow> link_incoming_transfer L l fr s3);
               s4 = snd r
           in if fst r = Some KeyError then
                seq (set_state L (Some DISCARDING))
                  (end_session L (Some unattached_handle_error)) s4
              else if fst r \<noteq> None then r
              else if incoming_window s4 = 0 then
                (None, outgoing_flow None (s4\<lparr>incoming_window := target_incoming_window s4\<rparr>))
              else (None, s4)))"

definition incoming_detach :: "'w link_ops \<Rightarrow> detach_frame \<Rightarrow> 'w stmt" where
  "incoming_detach L fr s =
     (let r = (case dict_get (input_handles s) (df_handle fr) of
                 Inl e \<Rightarrow> (Some e, s)
               | Inr l \<Rightarrow> link_incoming_detach L l fr s)
      in if fst r = Some KeyError then
           seq (set_state L (Some DISCARDING))
             (pure (\<lambda>s'. s'\<lparr>connection :=
                      connection_close (Some unattached_handle_error) (connection s')\<rparr>)) (snd r)
         else r)"

subsection \<open>Incoming attaches\<close>

text \<open>Python's \<open>str.format\<close> of an integer.\<close>

fun show_nat :: "nat \<Rightarrow> string" where
  "show_nat n =
     (if n < 10 then [char_of (48 + n)] else show_nat (n div 10) @ [char_of (48 + n mod 10)])"

definition show_int :: "int \<Rightarrow> string" where
  "show_int i = (if i < 0 then CHR ''-'' # show_nat (nat (- i)) else show_nat (nat i))"

definition detach_forced_error :: "int \<Rightarrow> amqp_error" where
  "detach_forced_error hmax =
     \<lparr>condition = LinkDetachForced,
      description = Some (''Cannot allocate more handles, '' @
                          ''the max number of handles is '' @ show_int hmax @ ''. Detaching link''),
      info = None\<rparr>"

text \<open>
  Modelled from the spec: \<open>ReceiverLink.from_incoming_frame\<close> and
  \<open>SenderLink.from_incoming_frame\<close> are not among the sources. The spec has the new link
  take the role complementary to the peer's, on the handle just allocated.
\<close>

definition link_from_incoming_frame :: "int \<Rightarrow> attach_frame \<Rightarrow> link" where
  "link_from_incoming_frame outgoing_handle fr =
     (if af_role fr = Sender then
        \<lparr>link_name = af_name fr, link_role = Receiver, link_handle = outgoing_handle,
         link_address = af_source fr\<rparr>
      else
        \<lparr>link_name = af_name fr, link_role = Sender, link_handle = outgoing_handle,
         link_address = af_target fr\<rparr>)"

text \<open>
  The handler \<open>except KeyError\<close> of \<open>_incoming_attach\<close>. A \<open>ValueError\<close> of
  \<open>_get_next_output_handle\<close> is caught, any other exception of it leaves the method, and so
  does an exception raised inside this handler.
\<close>

definition attach_new_link :: "'w link_ops \<Rightarrow> attach_frame \<Rightarrow> 'w stmt" where
  "attach_new_link L fr s =
     (case get_next_output_handle s of
        Inl e \<Rightarrow>
          if e = ValueError then
            (case dict_get (links s) (StrKey (af_name fr)) of
               Inl e' \<Rightarrow> (Some e', s)
             | Inr l \<Rightarrow> detach L l (Some (detach_forced_error (handle_max s))) s)
          else (Some e, s)
      | Inr outgoing_handle \<Rightarrow>
          (let new_link = link_from_incoming_frame outgoing_handle fr;
               r = link_incoming_attach L new_link fr s;
               s1 = snd r
           in if fst r \<noteq> None then r
              else
                let s2 = s1\<lparr>links := dict_set (links s1) (BytesKey (af_name fr)) new_link\<rparr>;
                    s3 = s2\<lparr>output_handles :=
                              dict_set (output_handles s2) outgoing_handle new_link\<rparr>;
                    s4 = s3\<lparr>input_handles := dict_set (input_handles s3) (af_handle fr) new_link\<rparr>
                in (None, s4)))"

text \<open>
  The name of the frame is decoded and looked up among the links, the link is stored under
  the peer's handle, and the link just stored is called.
\<close>

definition incoming_attach :: "'w link_ops \<Rightarrow> attach_frame \<Rightarrow> 'w stmt" where
  "incoming_attach L fr s =
     (let r = (case dict_get (links s) (StrKey (af_name fr)) of
                 Inl e \<Rightarrow> (Some e, s)
               | Inr l \<Rightarrow>
                   link_incoming_attach L l fr
                     (s\<lparr>input_handles := dict_set (input_handles s) (af_handle fr) l\<rparr>))
      in if fst r = Some KeyError then attach_new_link L fr (snd r)
         else if fst r = Some ValueError then
           (case dict_get (input_handles (snd r)) (af_handle fr) of
              Inl e \<Rightarrow> (Some e, snd r)
            | Inr l \<Rightarrow> detach L l None (snd r))
         else r)"

subsection \<open>Creating links\<close>

text \<open>
  The constructors \<open>SenderLink(...)\<close> and \<open>ReceiverLink(...)\<close> build the link object; its name
  (the \<open>name\<close> keyword argument or a fresh UUID there) is an argument here.
\<close>

definition create_receiver_link ::
  "string \<Rightarrow> string \<Rightarrow> 'w session \<Rightarrow> exn + (link \<times> 'w session)"
where
  "create_receiver_link source_address nm s =
     (case get_next_output_handle s of
        Inl e \<Rightarrow> Inl e
      | Inr assigned_handle \<Rightarrow>
          let l = \<lparr>link_name = nm, link_role = Receiver, link_handle = assigned_handle,
                   link_address = source_address\<rparr>;
              s1 = s\<lparr>links := dict_set (links s) (StrKey nm) l\<rparr>;
              s2 = s1\<lparr>output_handles := dict_set (output_handles s1) assigned_handle l\<rparr>
          in Inr (l, s2))"

definition create_sender_link ::
  "string \<Rightarrow> string \<Rightarrow> 'w session \<Rightarrow> exn + (link \<times> 'w session)"
where
  "create_sender_link target_address nm s =
     (case get_next_output_handle s of
        Inl e \<Rightarrow> Inl e
      | Inr assigned_handle \<Rightarrow>
          let l = \<lparr>link_name = nm, link_role = Sender, link_handle = assigned_handle,
                   link_address = target_address\<rparr>;
              s1 = s\<lparr>output_handles := dict_set (output_handles s) assigned_handle l\<rparr>;
              s2 = s1\<lparr>links := dict_set (links s1) (StrKey nm) l\<rparr>
          in Inr (l, s2))"

subsection \<open>Observing the frames handed to the connection\<close>

definition append_frames :: "performative list \<Rightarrow> 'w session \<Rightarrow> 'w session" where
  "append_frames fs s =
     s\<lparr>connection := (connection s)\<lparr>outgoing := outgoing (connection s) @ map (Pair (channel s)) fs\<rparr>\<rparr>"

fun begin_frames :: "performative list \<Rightarrow> begin_frame list" where
  "begin_frames [] = []"
| "begin_frames (BeginFrame b # fs) = b # begin_frames fs"
| "begin_frames (_ # fs) = begin_frames fs"

fun end_frames :: "performative list \<Rightarrow> amqp_error option list" where
  "end_frames [] = []"
| "end_frames (EndFrame e # fs) = e # end_frames fs"
| "end_frames (_ # fs) = end_frames fs"

fun flow_frames :: "performative list \<Rightarrow> flow_frame list" where
  "flow_frames [] = []"
| "flow_frames (FlowFrame f # fs) = f # flow_frames fs"
| "flow_frames (_ # fs) = flow_frames fs"

fun transfer_frames :: "performative list \<Rightarrow> transfer_frame list" where
  "transfer_frames [] = []"
| "transfer_frames (TransferFrame f # fs) = f # transfer_frames fs"
| "transfer_frames (_ # fs) = transfer_frames fs"

text \<open>
  The frames a link hands to the session's forwarding methods \<open>_outgoing_attach\<close>,
  \<open>_outgoing_detach\<close> and \<open>_outgoing_disposition\<close>, which pass them to the connection and
  touch no attribute of the session.
\<close>

fun is_link_frame :: "performative \<Rightarrow> bool" where
  "is_link_frame (AttachFrame _) = True"
| "is_link_frame (DetachFrame _) = True"
| "is_link_frame (DispositionFrame _) = True"
| "is_link_frame _ = False"

definition outgoing_attach :: "attach_frame \<Rightarrow> 'w session \<Rightarrow> 'w session" where
  "outgoing_attach fr s = send (AttachFrame fr) s"

definition outgoing_disposition :: "disposition_frame \<Rightarrow> 'w session \<Rightarrow> 'w session" where
  "outgoing_disposition fr s = send (DispositionFrame fr) s"

definition outgoing_detach :: "detach_frame \<Rightarrow> 'w session \<Rightarrow> 'w session" where
  "outgoing_detach fr s = send (DetachFrame fr) s"

text \<open>
  A link method that returns normally and reaches the session through those three
  forwarding methods only: it appends link frames and changes the links' own state.
\<close>

definition forwards_only :: "'w stmt \<Rightarrow> bool" where
  "forwards_only c \<longleftrightarrow>
     (\<forall>s. \<exists>fs w. list_all is_link_frame fs \<and>
               c s = (None, (append_frames fs s)\<lparr>link_world := w\<rparr>))"

subsection \<open>Concrete sessions, frames and deliveries\<close>

text \<open>Links whose methods do nothing, and a connection that has sent nothing yet.\<close>

definition quiet_links :: "unit link_ops" where
  "quiet_links =
     \<lparr>on_session_state_change = (\<lambda>l s. (None, s)),
      detach = (\<lambda>l err s. (None, s)),
      link_incoming_attach = (\<lambda>l fr s. (None, s)),
      link_incoming_transfer = (\<lambda>l fr s. (None, s)),
      link_incoming_flow = (\<lambda>l fr s. (None, s)),
      link_incoming_detach = (\<lambda>l fr s. (None, s)),
      is_closed = (\<lambda>l s. False)\<rparr>"

definition connection_with :: "int \<Rightarrow> connection" where
  "connection_with mfs = \<lparr>remote_max_frame_size = mfs, outgoing = [], close_requests = []\<rparr>"

definition fresh_session :: "int \<Rightarrow> int \<Rightarrow> unit session" where
  "fresh_session mfs hmax = Session_init (connection_with mfs) 0 ''session'' hmax 0 1 1 ()"

definition peer_begin :: "int \<Rightarrow> begin_frame" where
  "peer_begin w =
     \<lparr>bf_remote_channel = Some 0, bf_next_outgoing_id = 0, bf_incoming_window = w,
      bf_outgoing_window = 5, bf_handle_max = 7, bf_offered_capabilities = None,
      bf_desired_capabilities = None, bf_properties = None\<rparr>"

definition mapped_session :: "int \<Rightarrow> int \<Rightarrow> unit session" where
  "mapped_session mfs w =
     snd (incoming_begin quiet_links (peer_begin w)
            (snd (begin_session quiet_links (fresh_session mfs 7))))"

definition encoded_size :: "nat \<Rightarrow> transfer_frame \<Rightarrow> nat" where
  "encoded_size n fr = n"

definition delivery_of :: "bytes \<Rightarrow> delivery" where
  "delivery_of p =
     \<lparr>frame = \<lparr>tf_handle = 1, tf_delivery_id = None, tf_delivery_tag = None,
        tf_message_format = Some 0, tf_settled = Some False, tf_more = None,
        tf_rcv_settle_mode = None, tf_state = None, tf_resume = None, tf_aborted = None,
        tf_batchable = None, tf_payload = p\<rparr>,
      transfer_state = None\<rparr>"

text \<open>
  Sessions after one, two and three deliveries of three bytes each, a Flow of the peer, a
  session ended locally, an incoming Transfer on a given handle, and sessions with links.
\<close>

definition transfer_once :: "unit session \<Rightarrow> unit session option" where
  "transfer_once s = map_option snd (outgoing_transfer (encoded_size 20) (delivery_of [1, 2, 3]) s)"

definition after_two_transfers :: "int \<Rightarrow> unit session option" where
  "after_two_transfers w = Option.bind (transfer_once (mapped_session 512 w)) transfer_once"

definition after_three_transfers :: "int \<Rightarrow> unit session option" where
  "after_three_transfers w = Option.bind (after_two_transfers w) transfer_once"

definition peer_flow :: "int option \<Rightarrow> int \<Rightarrow> flow_frame" where
  "peer_flow nid w =
     empty_flow\<lparr>ff_next_incoming_id := nid, ff_incoming_window := w,
                ff_next_outgoing_id := 0, ff_outgoing_window := 5\<rparr>"

definition ended_session :: "unit session" where
  "ended_session = snd (end_session quiet_links None (mapped_session 512 5))"

definition transfer_on :: "int \<Rightarrow> transfer_frame" where
  "transfer_on h = (frame (delivery_of [1, 2, 3]))\<lparr>tf_handle := h, tf_delivery_id := Some 0\<rparr>"

definition new_link :: "string \<Rightarrow> role \<Rightarrow> int \<Rightarrow> string \<Rightarrow> link" where
  "new_link nm r h addr = \<lparr>link_name = nm, link_role = r, link_handle = h, link_address = addr\<rparr>"

definition one_link :: "int \<Rightarrow> unit session" where
  "one_link hmax = snd (projr (create_sender_link ''target'' ''sender'' (fresh_session 512 hmax)))"

definition two_links :: "int \<Rightarrow> unit session" where
  "two_links hmax = snd (projr (create_receiver_link ''source'' ''receiver'' (one_link hmax)))"

text \<open>
  An Attach of the peer; a mapped session whose receiver link the peer has attached on its
  handle 0; a session with three links; a Begin by which the peer opens a session itself,
  with no remote channel; a session that was mapped and then ended by the peer's End.
\<close>

definition peer_attach :: "string \<Rightarrow> int \<Rightarrow> role \<Rightarrow> attach_frame" where
  "peer_attach nm h r =
     \<lparr>af_name = nm, af_handle = h, af_role = r, af_source = ''source'', af_target = ''target''\<rparr>"

definition receiving_session :: "unit session" where
  "receiving_session =
     snd (incoming_attach quiet_links (peer_attach ''receiver'' 0 Sender)
       (snd (projr (create_receiver_link ''source'' ''receiver'' (mapped_session 512 5)))))"

definition three_links :: "int \<Rightarrow> unit session" where
  "three_links hmax = snd (projr (create_sender_link ''target'' ''third'' (two_links hmax)))"

definition peer_initiated_begin :: "int \<Rightarrow> begin_frame" where
  "peer_initiated_begin w = (peer_begin w)\<lparr>bf_remote_channel := None\<rparr>"

definition reopened_session :: "unit session" where
  "reopened_session = snd (incoming_end quiet_links None (mapped_session 512 5))"

section \<open>Properties\<close>

subsection \<open>Auxiliary facts\<close>

lemma send_append_frames: "send fr s = append_frames [fr] s"
  by (simp add: send_def append_frames_def process_outgoing_frame_def)

lemma append_frames_append: "append_frames fs (append_frames gs s) = append_frames (gs @ fs) s"
  by (simp add: append_frames_def)

lemma append_frames_Nil: "append_frames [] s = s"
  by (simp add: append_frames_def)

lemma append_frames_fields:
  "next_outgoing_id (append_frames fs s) = next_outgoing_id s"
  "channel (append_frames fs s) = channel s"
  "sent (append_frames fs s) = sent s @ fs"
  by (simp_all add: append_frames_def sent_def comp_def)

lemma slice_take_drop:
  "0 \<le> a \<Longrightarrow> 0 < c \<Longrightarrow> a + c \<le> int (length xs) \<Longrightarrow>
   slice xs a (a + c) = take (nat c) (drop (nat a) xs)"
  by (auto simp add: slice_def slice_bound_def Let_def min_def nat_add_distrib)

lemma slice_from_drop:
  "0 \<le> a \<Longrightarrow> a \<le> int (length xs) \<Longrightarrow> slice_from xs a = drop (nat a) xs"
  by (auto simp add: slice_from_def slice_bound_def min_def)

lemma ceiling_between:
  fixes c s n :: int
  assumes "0 < c" "c * n < s" "s \<le> c * (n + 1)"
  shows "\<lceil>real_of_int s / real_of_int c\<rceil> = n + 1"
proof -
  have c: "0 < real_of_int c" using assms(1) by simp
  have "real_of_int (c * n) < real_of_int s" using assms(2) by linarith
  then have lo: "real_of_int n < real_of_int s / real_of_int c"
    using c by (simp add: pos_less_divide_eq mult.commute)
  have "real_of_int s \<le> real_of_int (c * (n + 1))" using assms(3) by linarith
  then have hi: "real_of_int s / real_of_int c \<le> real_of_int n + 1"
    using c by (simp add: pos_divide_le_eq mult.commute algebra_simps)
  from lo hi show ?thesis by (intro ceiling_unique) simp_all
qed

lemma transfer_loop_result:
  assumes "0 < c"
  shows "0 \<le> start \<Longrightarrow> 0 \<le> rem \<Longrightarrow> start + rem = int (length payload) \<Longrightarrow>
   \<exists>ps. transfer_loop d payload c start rem s =
           Some (start + c * int (length ps), rem - c * int (length ps),
                 append_frames (map (\<lambda>p. TransferFrame (tmp_delivery_frame d (next_outgoing_id s) True p)) ps) s)
        \<and> rem - c * int (length ps) \<le> c
        \<and> (ps \<noteq> [] \<longrightarrow> 0 < rem - c * int (length ps))
        \<and> concat ps = take (nat (c * int (length ps))) (drop (nat start) payload)"
proof (induction "nat rem" arbitrary: rem start s rule: less_induct)
  case less
  show ?case
  proof (cases "rem > c")
    case False
    then have "transfer_loop d payload c start rem s = Some (start, rem, s)"
      by (subst transfer_loop.simps) simp
    then show ?thesis using False
      by (intro exI[of _ "[]"]) (simp add: append_frames_Nil)
  next
    case True
    let ?p = "slice payload start (start + c)"
    let ?s' = "send (TransferFrame (tmp_delivery_frame d (next_outgoing_id s) True ?p)) s"
    have step: "transfer_loop d payload c start rem s =
                transfer_loop d payload c (start + c) (rem - c) ?s'"
      using True by (subst transfer_loop.simps) simp
    have m: "nat (rem - c) < nat rem" using True assms by simp
    from less.hyps[OF m, of "start + c" ?s'] less.prems True assms
    obtain ps where ps:
      "transfer_loop d payload c (start + c) (rem - c) ?s' =
         Some (start + c + c * int (length ps), rem - c - c * int (length ps),
               append_frames (map (\<lambda>p. TransferFrame (tmp_delivery_frame d (next_outgoing_id ?s') True p)) ps) ?s')"
      "rem - c - c * int (length ps) \<le> c"
      "ps \<noteq> [] \<longrightarrow> 0 < rem - c - c * int (length ps)"
      "concat ps = take (nat (c * int (length ps))) (drop (nat (start + c)) payload)"
      by auto
    have p: "?p = take (nat c) (drop (nat start) payload)"
      using less.prems True assms by (intro slice_take_drop) auto
    have len: "length ?p = nat c" using less.prems True assms by (simp add: p)
    have "?p @ concat ps = take (nat c) (drop (nat start) payload)
            @ take (nat (c * int (length ps))) (drop (nat c) (drop (nat start) payload))"
      using ps(4) p less.prems assms by (simp add: nat_add_distrib add.commute)
    also have "\<dots> = take (nat c + nat (c * int (length ps))) (drop (nat start) payload)"
      by (simp add: take_add)
    also have "nat c + nat (c * int (length ps)) = nat (c * int (length (?p # ps)))"
      using assms by (simp add: nat_add_distrib algebra_simps)
    finally have cc: "concat (?p # ps) = take (nat (c * int (length (?p # ps)))) (drop (nat start) payload)"
      by simp
    have pos: "0 < rem - c * int (length (?p # ps))"
      using ps(3) True by (cases ps) (simp_all add: algebra_simps)
    have le: "rem - c * int (length (?p # ps)) \<le> c"
      using ps(2) by (simp add: algebra_simps)
    have res: "transfer_loop d payload c start rem s =
           Some (start + c * int (length (?p # ps)), rem - c * int (length (?p # ps)),
                 append_frames (map (\<lambda>p. TransferFrame (tmp_delivery_frame d (next_outgoing_id s) True p)) (?p # ps)) s)"
      using ps(1)
      by (simp add: step send_append_frames append_frames_append append_frames_fields algebra_simps)
    show ?thesis
      using res le pos cc by (intro exI[of _ "?p # ps"]) blast
  qed
qed


lemma tmp_delivery_frame_fields:
  "tf_more (tmp_delivery_frame d n m p) = Some m"
  "tf_delivery_id (tmp_delivery_frame d n m p) = Some n"
  "tf_payload (tmp_delivery_frame d n m p) = p"
  by (simp_all add: tmp_delivery_frame_def)

lemmas fixture_defs = quiet_links_def connection_with_def fresh_session_def peer_begin_def
  mapped_session_def encoded_size_def delivery_of_def Session_init_def

lemmas op_defs = incoming_begin_def begin_session_def set_state_def seq_def pure_def
  outgoing_begin_def send_def process_outgoing_frame_def dict_values_def Let_def

lemmas more_fixture_defs = transfer_once_def after_two_transfers_def after_three_transfers_def
  peer_flow_def ended_session_def transfer_on_def empty_flow_def

lemmas transfer_defs = outgoing_transfer_def transfer_loop.simps tmp_delivery_frame_def
  slice_def slice_from_def slice_bound_def

lemmas link_defs = create_sender_link_def create_receiver_link_def get_next_output_handle_def
  dict_keys_def Let_def upto.simps

lemma mapped_session_eval:
  "state (mapped_session mfs w) = MAPPED"
  "remote_incoming_window (mapped_session mfs w) = w"
  "next_outgoing_id (mapped_session mfs w) = 0"
  "remote_max_frame_size (connection (mapped_session mfs w)) = mfs"
  "length (sent (mapped_session mfs w)) = 1"
  by (simp_all add: fixture_defs op_defs sent_def)

subsection \<open>Links that only forward frames\<close>

lemma frames_append:
  "begin_frames (xs @ ys) = begin_frames xs @ begin_frames ys"
  "end_frames (xs @ ys) = end_frames xs @ end_frames ys"
  "flow_frames (xs @ ys) = flow_frames xs @ flow_frames ys"
  by (induction xs rule: begin_frames.induct) simp_all

lemma link_frames_filtered:
  "list_all is_link_frame fs \<Longrightarrow> begin_frames fs = [] \<and> end_frames fs = [] \<and> flow_frames fs = []"
  by (induction fs rule: begin_frames.induct) simp_all

lemma forwards_onlyD:
  assumes "forwards_only c"
  obtains fs w where "list_all is_link_frame fs" "c s = (None, (append_frames fs s)\<lparr>link_world := w\<rparr>)"
  using assms unfolding forwards_only_def by blast

lemma append_frames_world:
  "append_frames fs (s\<lparr>link_world := w\<rparr>) = (append_frames fs s)\<lparr>link_world := w\<rparr>"
  by (simp add: append_frames_def)

lemma forwards_only_for_each:
  fixes f :: "'a \<Rightarrow> 'w stmt"
  assumes "\<And>x. x \<in> set xs \<Longrightarrow> forwards_only (f x)"
  shows "forwards_only (for_each f xs)"
  using assms
proof (induction xs)
  case Nil
  show ?case unfolding forwards_only_def
  proof
    fix s :: "'w session"
    have "list_all is_link_frame [] \<and> for_each f [] s = (None, (append_frames [] s)\<lparr>link_world := link_world s\<rparr>)"
      by (simp add: append_frames_Nil)
    then show "\<exists>fs w. list_all is_link_frame fs \<and> for_each f [] s = (None, (append_frames fs s)\<lparr>link_world := w\<rparr>)"
      by blast
  qed
next
  case (Cons x xs)
  have fx: "forwards_only (f x)" and rest: "forwards_only (for_each f xs)"
    using Cons by simp_all
  show ?case unfolding forwards_only_def
  proof
    fix s :: "'w session"
    from fx obtain fs1 w1 where 1: "list_all is_link_frame fs1"
      "f x s = (None, (append_frames fs1 s)\<lparr>link_world := w1\<rparr>)"
      by (rule forwards_onlyD)
    from rest obtain fs2 w2 where 2: "list_all is_link_frame fs2"
      "for_each f xs ((append_frames fs1 s)\<lparr>link_world := w1\<rparr>)
         = (None, (append_frames fs2 ((append_frames fs1 s)\<lparr>link_world := w1\<rparr>))\<lparr>link_world := w2\<rparr>)"
      by (rule forwards_onlyD)
    have "for_each f (x # xs) s = (None, (append_frames (fs1 @ fs2) s)\<lparr>link_world := w2\<rparr>)"
      using 1(2) 2(2) by (simp add: append_frames_world append_frames_append)
    moreover have "list_all is_link_frame (fs1 @ fs2)" using 1(1) 2(1) by simp
    ultimately show "\<exists>fs w. list_all is_link_frame fs \<and>
        for_each f (x # xs) s = (None, (append_frames fs s)\<lparr>link_world := w\<rparr>)"
      by blast
  qed
qed

lemma set_state_forwards:
  assumes "\<And>l. forwards_only (on_session_state_change L l)"
  obtains fs w where "list_all is_link_frame fs"
    "set_state L (Some st) s = (None, (append_frames fs (s\<lparr>state := st\<rparr>))\<lparr>link_world := w\<rparr>)"
proof -
  have "forwards_only (for_each (on_session_state_change L) (dict_values (links s)))"
    using assms by (intro forwards_only_for_each)
  then obtain fs w where "list_all is_link_frame fs"
    "for_each (on_session_state_change L) (dict_values (links s)) (s\<lparr>state := st\<rparr>)
       = (None, (append_frames fs (s\<lparr>state := st\<rparr>))\<lparr>link_world := w\<rparr>)"
    by (rule forwards_onlyD)
  then show thesis using that by (simp add: set_state_def)
qed

lemma sent_simps:
  "sent (append_frames fs s) = sent s @ fs"
  "sent (s\<lparr>link_world := w\<rparr>) = sent s"
  "sent (s\<lparr>state := st\<rparr>) = sent s"
  "sent (send fr s) = sent s @ [fr]"
  by (simp_all add: sent_def append_frames_def send_def process_outgoing_frame_def comp_def)

lemma quiet_links_forwards:
  "forwards_only (on_session_state_change quiet_links l)"
  "forwards_only (detach quiet_links l err)"
  "forwards_only (link_incoming_attach quiet_links l af)"
  "forwards_only (link_incoming_transfer quiet_links l tf)"
  "forwards_only (link_incoming_flow quiet_links l ff)"
  "forwards_only (link_incoming_detach quiet_links l df)"
proof -
  have "forwards_only (\<lambda>s :: unit session. (None, s))"
    unfolding forwards_only_def
  proof
    fix s :: "unit session"
    have "list_all is_link_frame [] \<and> (None, s) = (None, (append_frames [] s)\<lparr>link_world := link_world s\<rparr>)"
      by (simp add: append_frames_Nil)
    then show "\<exists>fs w. list_all is_link_frame fs \<and> (None, s) = (None, (append_frames fs s)\<lparr>link_world := w\<rparr>)"
      by blast
  qed
  then show "forwards_only (on_session_state_change quiet_links l)"
  "forwards_only (detach quiet_links l err)"
  "forwards_only (link_incoming_attach quiet_links l af)"
  "forwards_only (link_incoming_transfer quiet_links l tf)"
  "forwards_only (link_incoming_flow quiet_links l ff)"
  "forwards_only (link_incoming_detach quiet_links l df)"
    by (simp_all add: quiet_links_def)
qed

text \<open>A link method that calls one of the three forwarding methods, and nothing else.\<close>

lemma forwarding_methods_forward:
  shows "forwards_only (pure (outgoing_attach a) :: 'w stmt)"
    and "forwards_only (pure (outgoing_detach d) :: 'w stmt)"
    and "forwards_only (pure (outgoing_disposition p) :: 'w stmt)"
proof -
  have "\<exists>fs w. list_all is_link_frame fs \<and>
          pure (send fr) s = (None, (append_frames fs s)\<lparr>link_world := w\<rparr>)"
    if "is_link_frame fr" for fr and s :: "'w session"
  proof -
    have "list_all is_link_frame [fr] \<and>
          pure (send fr) s = (None, (append_frames [fr] s)\<lparr>link_world := link_world s\<rparr>)"
      using that by (simp add: pure_def send_def append_frames_def process_outgoing_frame_def)
    then show ?thesis by blast
  qed
  then show "forwards_only (pure (outgoing_attach a) :: 'w stmt)"
    and "forwards_only (pure (outgoing_detach d) :: 'w stmt)"
    and "forwards_only (pure (outgoing_disposition p) :: 'w stmt)"
    unfolding forwards_only_def outgoing_attach_def outgoing_detach_def outgoing_disposition_def
    by simp_all
qed

lemmas attach_defs = peer_attach_def receiving_session_def incoming_attach_def dict_get_def
  new_link_def

lemma receiving_session_eval:
  "next_incoming_id receiving_session = Some 0"
  "input_handles receiving_session = [(0, new_link ''receiver'' Receiver 1 ''source'')]"
  "incoming_window receiving_session = 1"
  "target_incoming_window receiving_session = 1"
  "remote_outgoing_window receiving_session = 5"
  "flow_frames (sent receiving_session) = []"
  "state receiving_session = MAPPED"
  by (simp_all add: attach_defs fixture_defs op_defs link_defs sent_def)

subsection \<open>Fragmentation of outgoing transfers\<close>

text \<open>
  C1 (amended). A delivery sent while the session is \<open>MAPPED\<close> and \<open>remote_incoming_window > 0\<close>,
  with a payload of \<open>S\<close> bytes and a frame capacity
  \<open>C = remote_max_frame_size - transfer_overhead_size - 8 > 0\<close>: \<open>_outgoing_transfer\<close> returns,
  having handed exactly \<open>max(1, ceil(S/C))\<close> Transfer frames to the connection; every frame
  but the last has \<open>more=True\<close> and the last has \<open>more=False\<close>; every frame carries as
  delivery id the \<open>next_outgoing_id\<close> of the session at the start; the payloads of the frames,
  concatenated, are the payload of the delivery; \<open>next_outgoing_id\<close> goes up by one,
  \<open>remote_incoming_window\<close> and \<open>outgoing_window\<close> go down by one, whatever the number of
  fragments. A payload of \<open>C * 3 + 10\<close> bytes gives four frames, three with \<open>more=True\<close> and
  one with \<open>more=False\<close>, when \<open>C \<ge> 10\<close>.
\<close>

theorem outgoing_transfer_fragments:
  assumes mapped: "state s = MAPPED"
    and window: "0 < remote_incoming_window s"
    and C: "C = remote_max_frame_size (connection s)
              - int (enc ((frame d)\<lparr>tf_delivery_id := Some (next_outgoing_id s), tf_payload := []\<rparr>)) - 8"
    and pos: "0 < C"
    and S: "S = int (length (tf_payload (frame d)))"
  shows "\<exists>d' s' fs. outgoing_transfer enc d s = Some (d', s')
     \<and> sent s' = sent s @ map TransferFrame fs
     \<and> int (length fs) = max 1 \<lceil>real_of_int S / real_of_int C\<rceil>
     \<and> (\<forall>i < length fs. tf_more (fs ! i) = Some (i + 1 < length fs))
     \<and> (\<forall>f \<in> set fs. tf_delivery_id f = Some (next_outgoing_id s))
     \<and> concat (map tf_payload fs) = tf_payload (frame d)
     \<and> next_outgoing_id s' = next_outgoing_id s + 1
     \<and> remote_incoming_window s' = remote_incoming_window s - 1
     \<and> outgoing_window s' = outgoing_window s - 1
     \<and> transfer_state d' = Some OKAY
     \<and> (10 \<le> C \<and> S = C * 3 + 10 \<longrightarrow> map tf_more fs = [Some True, Some True, Some True, Some False])"
proof -
  let ?payload = "tf_payload (frame d)"
  let ?d3 = "d\<lparr>frame := (frame d)\<lparr>tf_delivery_id := Some (next_outgoing_id s), tf_payload := []\<rparr>\<rparr>"
  let ?nid = "next_outgoing_id s"
  from transfer_loop_result[OF pos, of 0 S ?payload ?d3 s] S
  obtain ps where loop: "transfer_loop ?d3 ?payload C 0 S s =
        Some (C * int (length ps), S - C * int (length ps),
              append_frames (map (\<lambda>p. TransferFrame (tmp_delivery_frame ?d3 ?nid True p)) ps) s)"
    and le: "S - C * int (length ps) \<le> C"
    and gt: "ps \<noteq> [] \<longrightarrow> 0 < S - C * int (length ps)"
    and cc: "concat ps = take (nat (C * int (length ps))) ?payload"
    by auto
  let ?n = "length ps"
  let ?last = "tmp_delivery_frame ?d3 ?nid False (slice_from ?payload (C * int ?n))"
  let ?fs = "map (tmp_delivery_frame ?d3 ?nid True) ps @ [?last]"
  let ?s1 = "append_frames (map TransferFrame ?fs) s"
  let ?s' = "?s1\<lparr>next_outgoing_id := ?nid + 1,
                   remote_incoming_window := remote_incoming_window s - 1,
                   outgoing_window := outgoing_window s - 1\<rparr>"
  let ?d' = "?d3\<lparr>transfer_state := Some OKAY\<rparr>"
  have bound: "0 \<le> C * int ?n" "C * int ?n \<le> S"
    using pos gt S by (cases ps, simp, simp)+
  have run: "outgoing_transfer enc d s = Some (?d', ?s')"
    using mapped window loop unfolding C S
    by (simp add: outgoing_transfer_def Let_def send_append_frames append_frames_append
          append_frames_fields append_frames_def comp_def)
  have sent: "sent ?s' = sent s @ map TransferFrame ?fs"
    by (simp add: sent_def append_frames_def comp_def)
  have count: "int (length ?fs) = max 1 \<lceil>real_of_int S / real_of_int C\<rceil>"
  proof (cases "S = 0")
    case True
    then have "ps = []" using gt bound(1) by (cases "ps = []") auto
    with True show ?thesis by simp
  next
    case False
    then have "0 < S" using S by simp
    then have "C * int ?n < S" using gt by (cases ps) simp_all
    moreover have "S \<le> C * (int ?n + 1)" using le by (simp add: algebra_simps)
    ultimately have "\<lceil>real_of_int S / real_of_int C\<rceil> = int ?n + 1"
      using pos by (intro ceiling_between)
    then show ?thesis by simp
  qed
  have more_flags: "\<forall>i < length ?fs. tf_more (?fs ! i) = Some (i + 1 < length ?fs)"
    by (auto simp: nth_append tmp_delivery_frame_fields less_Suc_eq)
  have ids: "\<forall>f \<in> set ?fs. tf_delivery_id f = Some ?nid"
    by (auto simp: tmp_delivery_frame_fields)
  have "slice_from ?payload (C * int ?n) = drop (nat (C * int ?n)) ?payload"
    using bound S by (intro slice_from_drop) simp_all
  then have payload: "concat (map tf_payload ?fs) = ?payload"
    using cc by (simp add: comp_def tmp_delivery_frame_fields)
  have four: "10 \<le> C \<and> S = C * 3 + 10 \<longrightarrow>
      map tf_more ?fs = [Some True, Some True, Some True, Some False]"
  proof
    assume a: "10 \<le> C \<and> S = C * 3 + 10"
    then have "C * 3 < S" "S \<le> C * (3 + 1)" by simp_all
    then have "\<lceil>real_of_int S / real_of_int C\<rceil> = 3 + 1"
      using pos by (intro ceiling_between)
    with count have "length ps = 3" by simp
    then obtain p1 p2 p3 where "ps = [p1, p2, p3]"
      by (auto simp: length_Suc_conv numeral_3_eq_3)
    then show "map tf_more ?fs = [Some True, Some True, Some True, Some False]"
      by (simp add: tmp_delivery_frame_fields)
  qed
  have counters: "next_outgoing_id ?s' = ?nid + 1"
    "remote_incoming_window ?s' = remote_incoming_window s - 1"
    "outgoing_window ?s' = outgoing_window s - 1" "transfer_state ?d' = Some OKAY"
    by simp_all
  show ?thesis
    using run sent count more_flags ids payload counters four
    by (intro exI[of _ ?d'] exI[of _ ?s'] exI[of _ ?fs]) blast
qed

text \<open>
  The theorem at a capacity of \<open>512 - 20 - 8 = 484\<close> bytes and a payload of \<open>484 * 3 + 10 = 1462\<close>
  bytes, on a session that reached \<open>MAPPED\<close> through \<open>begin\<close> and the peer's Begin.
\<close>

theorem outgoing_transfer_fragments_witness:
  "state (mapped_session 512 5) = MAPPED \<and> 0 < remote_incoming_window (mapped_session 512 5)
   \<and> (\<exists>d' s' fs. outgoing_transfer (encoded_size 20) (delivery_of (replicate 1462 7)) (mapped_session 512 5) = Some (d', s')
        \<and> sent s' = sent (mapped_session 512 5) @ map TransferFrame fs
        \<and> map tf_more fs = [Some True, Some True, Some True, Some False]
        \<and> concat (map tf_payload fs) = replicate 1462 7
        \<and> next_outgoing_id s' = 1 \<and> remote_incoming_window s' = 4)"
proof -
  let ?s = "mapped_session 512 5" and ?d = "delivery_of (replicate 1462 7)"
  have h1: "state ?s = MAPPED" and h2: "0 < remote_incoming_window ?s"
    by (simp_all add: mapped_session_eval)
  have h3: "(484::int) = remote_max_frame_size (connection ?s)
      - int (encoded_size 20 ((frame ?d)\<lparr>tf_delivery_id := Some (next_outgoing_id ?s), tf_payload := []\<rparr>)) - 8"
    by (simp add: mapped_session_eval encoded_size_def)
  have h4: "(0::int) < 484" by simp
  have h5: "(1462::int) = int (length (tf_payload (frame ?d)))" by (simp add: delivery_of_def)
  have ar: "10 \<le> (484::int) \<and> (1462::int) = 484 * 3 + 10" by simp
  have pl: "tf_payload (frame ?d) = replicate 1462 7" by (simp add: delivery_of_def)
  from outgoing_transfer_fragments[where enc = "encoded_size 20" and d = ?d and s = ?s, OF h1 h2 h3 h4 h5]
  obtain d' s' fs where r: "outgoing_transfer (encoded_size 20) ?d ?s = Some (d', s')
     \<and> sent s' = sent ?s @ map TransferFrame fs
     \<and> int (length fs) = max 1 \<lceil>real_of_int 1462 / real_of_int 484\<rceil>
     \<and> (\<forall>i < length fs. tf_more (fs ! i) = Some (i + 1 < length fs))
     \<and> (\<forall>f \<in> set fs. tf_delivery_id f = Some (next_outgoing_id ?s))
     \<and> concat (map tf_payload fs) = tf_payload (frame ?d)
     \<and> next_outgoing_id s' = next_outgoing_id ?s + 1
     \<and> remote_incoming_window s' = remote_incoming_window ?s - 1
     \<and> outgoing_window s' = outgoing_window ?s - 1
     \<and> transfer_state d' = Some OKAY
     \<and> (10 \<le> (484::int) \<and> (1462::int) = 484 * 3 + 10 \<longrightarrow> map tf_more fs = [Some True, Some True, Some True, Some False])"
    by (elim exE)
  with ar have "map tf_more fs = [Some True, Some True, Some True, Some False]" by blast
  with r pl show ?thesis using h1 h2
    by (intro conjI exI[of _ d'] exI[of _ s'] exI[of _ fs]) (simp_all add: mapped_session_eval)
qed

text \<open>
  C1 as stated fails for a capacity below 10: with \<open>C = 512 - 499 - 8 = 5\<close> the payload of
  \<open>C * 3 + 10 = 25\<close> bytes leaves in five frames, not four.
\<close>

theorem four_frames_counterexample:
  "state (mapped_session 512 5) = MAPPED \<and> 0 < remote_incoming_window (mapped_session 512 5)
   \<and> remote_max_frame_size (connection (mapped_session 512 5))
       - int (encoded_size 499 ((frame (delivery_of (replicate 25 7)))
           \<lparr>tf_delivery_id := Some (next_outgoing_id (mapped_session 512 5)), tf_payload := []\<rparr>)) - 8 = 5
   \<and> int (length (tf_payload (frame (delivery_of (replicate 25 7))))) = 5 * 3 + 10
   \<and> outgoing_transfer (encoded_size 499) (delivery_of (replicate 25 7)) (mapped_session 512 5) \<noteq> None
   \<and> length (sent (snd (the (outgoing_transfer (encoded_size 499) (delivery_of (replicate 25 7)) (mapped_session 512 5)))))
       = length (sent (mapped_session 512 5)) + 5"
  by (simp add: fixture_defs op_defs sent_def outgoing_transfer_def transfer_loop.simps)


subsection \<open>Back-pressure\<close>

lemma transfer_loop_counters_aux:
  assumes "transfer_loop d p c st r s = Some y"
  shows "remote_incoming_window (snd (snd y)) = remote_incoming_window s
       \<and> next_outgoing_id (snd (snd y)) = next_outgoing_id s
       \<and> outgoing_window (snd (snd y)) = outgoing_window s"
proof (rule transfer_loop.raw_induct[where P = "\<lambda>d p c st r s y.
       remote_incoming_window (snd (snd y)) = remote_incoming_window s
       \<and> next_outgoing_id (snd (snd y)) = next_outgoing_id s
       \<and> outgoing_window (snd (snd y)) = outgoing_window s", OF _ assms])
  fix f d p c st r s y
  assume ih: "\<And>p c st r s b y. f p c st r s b = Some y \<Longrightarrow>
       remote_incoming_window (snd (snd y)) = remote_incoming_window b
       \<and> next_outgoing_id (snd (snd y)) = next_outgoing_id b
       \<and> outgoing_window (snd (snd y)) = outgoing_window b"
    and step: "(if c < r then f d p c (st + c) (r - c)
            (send (TransferFrame (tmp_delivery_frame d (next_outgoing_id s) True (slice p st (st + c)))) s)
         else Some (st, r, s)) = Some y"
  show "remote_incoming_window (snd (snd y)) = remote_incoming_window s
       \<and> next_outgoing_id (snd (snd y)) = next_outgoing_id s
       \<and> outgoing_window (snd (snd y)) = outgoing_window s"
  proof (cases "c < r")
    case True
    with step ih[of d p c "st + c" "r - c" _ y] show ?thesis
      by (simp add: send_def)
  next
    case False
    with step show ?thesis by auto
  qed
qed

text \<open>
  C3 (amended). \<open>_outgoing_transfer\<close> never makes \<open>remote_incoming_window\<close> negative: a call
  made while \<open>remote_incoming_window <= 0\<close> sets the delivery's \<open>transfer_state\<close> to \<open>BUSY\<close>,
  hands no frame to the connection and leaves the session, so \<open>next_outgoing_id\<close>,
  \<open>remote_incoming_window\<close> and \<open>outgoing_window\<close>, as it was; a call made while the window is
  positive lowers it by one, to a value that is not negative. (An incoming Flow can
  set a negative window.)
\<close>

theorem outgoing_transfer_busy:
  "(remote_incoming_window s \<le> 0 \<longrightarrow>
      outgoing_transfer enc d s = Some (d\<lparr>transfer_state := Some BUSY\<rparr>, s))
   \<and> (0 < remote_incoming_window s \<longrightarrow>
        (\<forall>d' s'. outgoing_transfer enc d s = Some (d', s') \<longrightarrow>
           remote_incoming_window s' = remote_incoming_window s - 1
           \<and> 0 \<le> remote_incoming_window s'))"
  by (auto simp: outgoing_transfer_def Let_def send_def split: option.splits dest!: transfer_loop_counters_aux)

text \<open>
  The theorem on a \<open>MAPPED\<close> session whose window of two is used up by two deliveries, and on
  one whose window of five is open.
\<close>

theorem outgoing_transfer_busy_witness:
  "after_two_transfers 2 \<noteq> None
   \<and> state (the (after_two_transfers 2)) = MAPPED
   \<and> remote_incoming_window (the (after_two_transfers 2)) \<le> 0
   \<and> outgoing_transfer (encoded_size 20) (delivery_of [9]) (the (after_two_transfers 2))
       = Some ((delivery_of [9])\<lparr>transfer_state := Some BUSY\<rparr>, the (after_two_transfers 2))
   \<and> 0 < remote_incoming_window (mapped_session 512 5)
   \<and> outgoing_transfer (encoded_size 20) (delivery_of [9]) (mapped_session 512 5) \<noteq> None
   \<and> remote_incoming_window
        (snd (the (outgoing_transfer (encoded_size 20) (delivery_of [9]) (mapped_session 512 5)))) = 4"
proof -
  let ?s = "the (after_two_transfers 2)" and ?d = "delivery_of [9]"
  have a: "after_two_transfers 2 \<noteq> None" "state ?s = MAPPED" "remote_incoming_window ?s \<le> 0"
    by (simp_all add: more_fixture_defs fixture_defs op_defs transfer_defs)
  have b: "0 < remote_incoming_window (mapped_session 512 5)"
    by (simp add: mapped_session_eval)
  have c: "outgoing_transfer (encoded_size 20) ?d (mapped_session 512 5) \<noteq> None"
    by (simp add: fixture_defs op_defs transfer_defs)
  then obtain d' s' where r: "outgoing_transfer (encoded_size 20) ?d (mapped_session 512 5) = Some (d', s')"
    by auto
  from outgoing_transfer_busy[of ?s "encoded_size 20" ?d] a(3)
  have busy: "outgoing_transfer (encoded_size 20) ?d ?s = Some (?d\<lparr>transfer_state := Some BUSY\<rparr>, ?s)"
    by blast
  from outgoing_transfer_busy[of "mapped_session 512 5" "encoded_size 20" ?d] b r
  have "remote_incoming_window s' = remote_incoming_window (mapped_session 512 5) - 1"
    by blast
  then have "remote_incoming_window (snd (the (outgoing_transfer (encoded_size 20) ?d (mapped_session 512 5)))) = 4"
    using r by (simp add: mapped_session_eval)
  with a b c busy show ?thesis by simp
qed

text \<open>
  C3 as stated fails: the window becomes negative under a sequence of session operations.
  After \<open>begin\<close>, a Begin of the peer with an incoming window of two, and two deliveries,
  the window is 0; a Flow with \<open>next_incoming_id = 1\<close> and \<open>incoming_window = 0\<close> then sets it
  to \<open>1 + 0 - 2 = -1\<close>.
\<close>

theorem negative_window_counterexample:
  "after_two_transfers 2 \<noteq> None
   \<and> remote_incoming_window (the (after_two_transfers 2)) = 0
   \<and> next_outgoing_id (the (after_two_transfers 2)) = 2
   \<and> fst (incoming_flow quiet_links (peer_flow (Some 1) 0) (the (after_two_transfers 2))) = None
   \<and> remote_incoming_window
        (snd (incoming_flow quiet_links (peer_flow (Some 1) 0) (the (after_two_transfers 2)))) = - 1"
  by (simp add: more_fixture_defs fixture_defs op_defs transfer_defs incoming_flow_def py_or_def)

subsection \<open>Transfers on a session that is not mapped\<close>

text \<open>
  C6. The claim is that a call of \<open>_outgoing_transfer\<close> on a session that is not \<open>MAPPED\<close>
  leaves the delivery in \<open>ERROR\<close>, emits no frame and changes no counter. The code sets
  \<open>ERROR\<close> and goes on to the window test, which is an \<open>if\<close> and not an \<open>elif\<close>: on a session
  ended locally (\<open>END_SENT\<close>) with an open window the delivery is sent in one Transfer frame,
  \<open>next_outgoing_id\<close> goes up, and the delivery ends in \<open>OKAY\<close>; on a fresh session
  (\<open>UNMAPPED\<close>, window 0) the delivery ends in \<open>BUSY\<close>.
\<close>

theorem outgoing_transfer_not_mapped:
  "state ended_session = END_SENT
   \<and> transfer_frames (sent ended_session) = []
   \<and> outgoing_transfer (encoded_size 20) (delivery_of [1, 2, 3]) ended_session \<noteq> None
   \<and> transfer_state (fst (the (outgoing_transfer (encoded_size 20) (delivery_of [1, 2, 3]) ended_session)))
        = Some OKAY
   \<and> map tf_payload (transfer_frames (sent (snd (the (outgoing_transfer (encoded_size 20) (delivery_of [1, 2, 3]) ended_session)))))
        = [[1, 2, 3]]
   \<and> next_outgoing_id (snd (the (outgoing_transfer (encoded_size 20) (delivery_of [1, 2, 3]) ended_session)))
        = next_outgoing_id ended_session + 1
   \<and> state (fresh_session 512 7) = UNMAPPED
   \<and> outgoing_transfer (encoded_size 20) (delivery_of [1, 2, 3]) (fresh_session 512 7) 
        = Some ((delivery_of [1, 2, 3])\<lparr>transfer_state := Some BUSY\<rparr>, fresh_session 512 7)"
  by (simp add: more_fixture_defs fixture_defs op_defs transfer_defs end_session_def end_body_def
       outgoing_end_def sent_def)

subsection \<open>Incoming Flow\<close>

text \<open>
  C7. The claim is that the local \<open>next_outgoing_id\<close> stands in for the peer's
  \<open>next_incoming_id\<close> when the peer omits the field. The code writes
  \<open>frame[0] or self.next_outgoing_id\<close>, which also replaces a \<open>next_incoming_id\<close> of 0: after
  three deliveries (\<open>next_outgoing_id = 3\<close>) a Flow with \<open>next_incoming_id = 0\<close> and
  \<open>incoming_window = 5\<close> sets \<open>remote_incoming_window\<close> to \<open>3 + 5 - 3 = 5\<close>, where the claim
  has \<open>0 + 5 - 3 = 2\<close>.
\<close>

theorem incoming_flow_zero_next_incoming_id:
  "after_three_transfers 5 \<noteq> None
   \<and> next_outgoing_id (the (after_three_transfers 5)) = 3
   \<and> ff_next_incoming_id (peer_flow (Some 0) 5) = Some 0
   \<and> ff_incoming_window (peer_flow (Some 0) 5) = 5
   \<and> remote_incoming_window
        (snd (incoming_flow quiet_links (peer_flow (Some 0) 5) (the (after_three_transfers 5)))) = 5
   \<and> 0 + ff_incoming_window (peer_flow (Some 0) 5) - next_outgoing_id (the (after_three_transfers 5)) = 2"
  by (simp add: more_fixture_defs fixture_defs op_defs transfer_defs incoming_flow_def py_or_def)

subsection \<open>Ending a session\<close>

text \<open>
  C9. The claim is that two calls of \<open>end()\<close> in sequence send at most one End frame. The
  guard of \<open>end\<close> leaves out \<open>UNMAPPED\<close> and \<open>DISCARDING\<close> only: after the first call on a
  \<open>MAPPED\<close> session the state is \<open>END_SENT\<close>, and the second call sends a second End frame.
  Neither call raises.
\<close>

theorem end_twice_two_end_frames:
  "state (mapped_session 512 5) = MAPPED
   \<and> end_frames (sent (mapped_session 512 5)) = []
   \<and> fst (end_session quiet_links None (mapped_session 512 5)) = None
   \<and> end_frames (sent ended_session) = [None]
   \<and> fst (end_session quiet_links None ended_session) = None
   \<and> end_frames (sent (snd (end_session quiet_links None ended_session))) = [None, None]"
  by (simp add: more_fixture_defs fixture_defs op_defs end_session_def end_body_def
       outgoing_end_def sent_def)

subsection \<open>A Transfer on an unattached handle\<close>

text \<open>
  C2. The claim is that a Transfer on a handle that is not among the input handles moves
  the session to \<open>DISCARDING\<close> and sends exactly one End frame with the
  \<open>session-unattached-handle\<close> condition. The code sets the state to \<open>DISCARDING\<close> and then calls
  \<open>end(error=...)\<close>, whose guard sends no End frame in that state: on a \<open>MAPPED\<close> session
  without links, a Transfer on handle 99 leaves the state \<open>DISCARDING\<close> and the frames handed
  to the connection as they were.
\<close>

theorem unattached_handle_no_end_frame:
  "state (mapped_session 512 5) = MAPPED
   \<and> input_handles (mapped_session 512 5) = []
   \<and> fst (incoming_transfer quiet_links (transfer_on 99) (mapped_session 512 5)) = None
   \<and> state (snd (incoming_transfer quiet_links (transfer_on 99) (mapped_session 512 5))) = DISCARDING
   \<and> sent (snd (incoming_transfer quiet_links (transfer_on 99) (mapped_session 512 5)))
        = sent (mapped_session 512 5)
   \<and> end_frames (sent (snd (incoming_transfer quiet_links (transfer_on 99) (mapped_session 512 5)))) = []"
  by (simp add: more_fixture_defs fixture_defs op_defs end_session_def end_body_def
       outgoing_end_def sent_def incoming_transfer_def dict_get_def)

subsection \<open>Handle allocation\<close>

lemma find_upto_Some:
  "find P [a..b] = Some h \<longleftrightarrow> a \<le> h \<and> h \<le> b \<and> P h \<and> (\<forall>i. a \<le> i \<and> i < h \<longrightarrow> \<not> P i)"
proof (induction a b rule: upto.induct)
  case (1 a b)
  show ?case
  proof (cases "a \<le> b")
    case False
    then show ?thesis by auto
  next
    case True
    then have u: "[a..b] = a # [a + 1..b]" by (simp add: upto_rec1)
    show ?thesis
    proof (cases "P a")
      case True
      then show ?thesis using \<open>a \<le> b\<close> u by (auto simp: not_less[symmetric])
    next
      case False
      have "(\<forall>i. a + 1 \<le> i \<and> i < h \<longrightarrow> \<not> P i) \<longleftrightarrow> (\<forall>i. a \<le> i \<and> i < h \<longrightarrow> \<not> P i)"
        using False by (metis add1_zle_eq order_le_less)
      moreover have "a + 1 \<le> h \<and> P h \<longleftrightarrow> a \<le> h \<and> P h"
        using False by (metis add1_zle_eq order_le_less)
      ultimately show ?thesis using 1[OF True] False u by auto
    qed
  qed
qed

lemma find_upto_None: "find P [a..b] = None \<longleftrightarrow> (\<forall>i. a \<le> i \<and> i \<le> b \<longrightarrow> \<not> P i)"
  by (auto simp: find_None_iff)

lemma two_links_eval:
  "handle_max (two_links 3) = 3" "dict_keys (output_handles (two_links 3)) = [1, 2]"
  by (simp_all add: two_links_def one_link_def fixture_defs link_defs)

text \<open>
  C10. When the table holds fewer than \<open>handle_max\<close> entries and every handle from 1 to
  \<open>handle_max - 1\<close> is taken, the guard of \<open>_get_next_output_handle\<close> does not fire and
  \<open>next()\<close> finds no candidate: the method raises \<open>StopIteration\<close>, not \<open>ValueError\<close>.
\<close>

theorem get_next_output_handle_StopIteration:
  assumes "int (length (output_handles s)) < handle_max s"
    and "\<forall>i. 1 \<le> i \<and> i < handle_max s \<longrightarrow> i \<in> set (dict_keys (output_handles s))"
  shows "get_next_output_handle s = Inl StopIteration"
proof -
  have "find (\<lambda>i. i \<notin> set (dict_keys (output_handles s))) [1 .. handle_max s - 1] = None"
    using assms(2) by (simp add: find_upto_None)
  then show ?thesis using assms(1) by (simp add: get_next_output_handle_def)
qed

text \<open>
  Such a state is reached on a session with \<open>handle_max = 3\<close> by \<open>create_sender_link\<close> and
  \<open>create_receiver_link\<close>, which take the handles 1 and 2; a third link then fails with
  \<open>StopIteration\<close>.
\<close>

theorem get_next_output_handle_StopIteration_witness:
  "create_sender_link ''target'' ''sender'' (fresh_session 512 3)
     = Inr (new_link ''sender'' Sender 1 ''target'', one_link 3)
   \<and> create_receiver_link ''source'' ''receiver'' (one_link 3)
     = Inr (new_link ''receiver'' Receiver 2 ''source'', two_links 3)
   \<and> dict_keys (output_handles (two_links 3)) = [1, 2]
   \<and> handle_max (two_links 3) = 3
   \<and> get_next_output_handle (two_links 3) = Inl StopIteration
   \<and> create_sender_link ''target'' ''another'' (two_links 3) = Inl StopIteration"
proof -
  have h1: "int (length (output_handles (two_links 3))) < handle_max (two_links 3)"
    by (simp add: two_links_def one_link_def fixture_defs link_defs)
  have h2: "\<forall>i. 1 \<le> i \<and> i < handle_max (two_links 3) \<longrightarrow> i \<in> set (dict_keys (output_handles (two_links 3)))"
    by (auto simp: two_links_eval)
  have r: "get_next_output_handle (two_links 3) = Inl StopIteration"
    by (rule get_next_output_handle_StopIteration[OF h1 h2])
  have c: "create_sender_link ''target'' ''sender'' (fresh_session 512 3)
     = Inr (new_link ''sender'' Sender 1 ''target'', one_link 3)
   \<and> create_receiver_link ''source'' ''receiver'' (one_link 3)
     = Inr (new_link ''receiver'' Receiver 2 ''source'', two_links 3)"
    by (simp add: two_links_def one_link_def new_link_def fixture_defs link_defs)
  show ?thesis using r c by (simp add: two_links_eval create_sender_link_def)
qed



text \<open>
  C5 (amended). \<open>_get_next_output_handle\<close> returns the smallest handle of \<open>[1, handle_max)\<close> that
  is not in the table, whenever the table holds fewer than \<open>handle_max\<close> entries and such a
  handle exists (handle 0 is never given out); it fails when every handle of \<open>[1, handle_max)\<close>
  is taken. The result depends on the table and on \<open>handle_max\<close> only.
\<close>

theorem get_next_output_handle_smallest:
  "(int (length (output_handles s)) < handle_max s \<and> 1 \<le> k \<and> k < handle_max s
      \<and> k \<notin> set (dict_keys (output_handles s)) \<longrightarrow>
      (\<exists>h. get_next_output_handle s = Inr h \<and> 1 \<le> h \<and> h \<le> k
           \<and> h \<notin> set (dict_keys (output_handles s))
           \<and> (\<forall>i. 1 \<le> i \<and> i < h \<longrightarrow> i \<in> set (dict_keys (output_handles s)))))
   \<and> ((\<forall>i. 1 \<le> i \<and> i < handle_max s \<longrightarrow> i \<in> set (dict_keys (output_handles s))) \<longrightarrow>
        (\<exists>e. get_next_output_handle s = Inl e))"
proof (intro conjI impI)
  let ?P = "\<lambda>i. i \<notin> set (dict_keys (output_handles s))"
  assume a: "int (length (output_handles s)) < handle_max s \<and> 1 \<le> k \<and> k < handle_max s \<and> ?P k"
  then have "find ?P [1 .. handle_max s - 1] \<noteq> None"
    by (auto simp: find_upto_None)
  then obtain h where h: "find ?P [1 .. handle_max s - 1] = Some h" by auto
  then have p: "1 \<le> h" "h \<le> handle_max s - 1" "?P h" "\<forall>i. 1 \<le> i \<and> i < h \<longrightarrow> \<not> ?P i"
    by (simp_all add: find_upto_Some)
  have "h \<le> k"
  proof (rule ccontr)
    assume "\<not> h \<le> k"
    then have "1 \<le> k \<and> k < h" using a by simp
    then have "\<not> ?P k" using p(4) by blast
    then show False using a by simp
  qed
  moreover have "get_next_output_handle s = Inr h"
    using a h by (simp add: get_next_output_handle_def)
  ultimately show "\<exists>h. get_next_output_handle s = Inr h \<and> 1 \<le> h \<and> h \<le> k \<and> ?P h
      \<and> (\<forall>i. 1 \<le> i \<and> i < h \<longrightarrow> i \<in> set (dict_keys (output_handles s)))"
    using p by blast
next
  assume "\<forall>i. 1 \<le> i \<and> i < handle_max s \<longrightarrow> i \<in> set (dict_keys (output_handles s))"
  then have "find (\<lambda>i. i \<notin> set (dict_keys (output_handles s))) [1 .. handle_max s - 1] = None"
    by (simp add: find_upto_None)
  then show "\<exists>e. get_next_output_handle s = Inl e"
    by (simp add: get_next_output_handle_def)
qed

lemma three_links_eval:
  "dict_keys (output_handles (three_links 7)) = [1, 2, 3]"
  "handle_max (three_links 7) = 7"
  by (simp_all add: three_links_def two_links_def one_link_def fixture_defs link_defs)

text \<open>
  The theorem on a session with \<open>handle_max = 7\<close> whose three links hold the handles 1, 2
  and 3: the handles 4 and 5 are free, the method returns 4, and the fourth link is created
  on handle 4. With \<open>handle_max = 3\<close> and the handles 1 and 2 taken, the allocation fails.
\<close>

theorem get_next_output_handle_smallest_witness:
  "dict_keys (output_handles (three_links 7)) = [1, 2, 3]
   \<and> handle_max (three_links 7) = 7
   \<and> get_next_output_handle (three_links 7) = Inr 4
   \<and> (\<exists>s'. create_sender_link ''target'' ''fourth'' (three_links 7)
               = Inr (new_link ''fourth'' Sender 4 ''target'', s'))
   \<and> (\<exists>e. get_next_output_handle (two_links 3) = Inl e)"
proof -
  note alloc = get_next_output_handle_smallest
  have "int (length (output_handles (three_links 7))) < handle_max (three_links 7)
        \<and> (1::int) \<le> 5 \<and> 5 < handle_max (three_links 7)
        \<and> 5 \<notin> set (dict_keys (output_handles (three_links 7)))"
    using three_links_eval by (simp add: dict_keys_def[symmetric] flip: length_map[of fst])
  with alloc[where s = "three_links 7" and k = 5]
  obtain h where h: "get_next_output_handle (three_links 7) = Inr h" "1 \<le> h" "h \<le> 5"
    "h \<notin> set (dict_keys (output_handles (three_links 7)))"
    "\<forall>i. 1 \<le> i \<and> i < h \<longrightarrow> i \<in> set (dict_keys (output_handles (three_links 7)))"
    by blast
  have "h \<noteq> 5"
  proof
    assume "h = 5"
    with h(5) have "4 \<in> set (dict_keys (output_handles (three_links 7)))" by simp
    then show False by (simp add: three_links_eval)
  qed
  with h(2,3,4) have "h = 4" by (auto simp: three_links_eval)
  with h have next4: "get_next_output_handle (three_links 7) = Inr 4" by simp
  have full: "\<forall>i. 1 \<le> i \<and> i < handle_max (two_links 3) \<longrightarrow>
                i \<in> set (dict_keys (output_handles (two_links 3)))"
    by (auto simp: two_links_eval)
  with alloc[where s = "two_links 3"]
  have exhausted: "\<exists>e. get_next_output_handle (two_links 3) = Inl e" by blast
  have created: "\<exists>s'. create_sender_link ''target'' ''fourth'' (three_links 7)
               = Inr (new_link ''fourth'' Sender 4 ''target'', s')"
    using next4 by (simp add: create_sender_link_def new_link_def Let_def)
  show ?thesis
    using three_links_eval next4 created exhausted by simp
qed

text \<open>
  C5 as stated fails on the empty table: handle 0 is free and below \<open>handle_max\<close>, and the
  method returns 1.
\<close>

theorem handle_zero_counterexample:
  "output_handles (fresh_session 512 7) = [] \<and> handle_max (fresh_session 512 7) = 7
   \<and> get_next_output_handle (fresh_session 512 7) = Inr 1"
  by (simp add: fixture_defs link_defs)

subsection \<open>Incoming transfers\<close>

text \<open>
  C4. An incoming Transfer on an attached handle, received once \<open>next_incoming_id\<close> is set
  and handled by a link that only forwards frames: \<open>_incoming_transfer\<close> returns normally,
  \<open>next_incoming_id\<close> goes up by one, \<open>remote_outgoing_window\<close> goes down by one, and
  \<open>incoming_window\<close> goes down by one; when it reaches 0 that way it is reset to
  \<open>target_incoming_window\<close> and exactly one Flow frame, with the session's four fields, is
  handed to the connection; otherwise no Flow frame is.
\<close>

theorem incoming_transfer_counts:
  assumes nid: "next_incoming_id s = Some n"
    and h: "dict_get (input_handles s) (tf_handle fr) = Inr l"
    and ok: "forwards_only (link_incoming_transfer L l fr)"
  shows "\<exists>s'. incoming_transfer L fr s = (None, s')
     \<and> next_incoming_id s' = Some (n + 1)
     \<and> remote_outgoing_window s' = remote_outgoing_window s - 1
     \<and> (if incoming_window s - 1 = 0
         then incoming_window s' = target_incoming_window s
              \<and> flow_frames (sent s') = flow_frames (sent s) @
                  [empty_flow\<lparr>ff_next_incoming_id := Some (n + 1),
                              ff_incoming_window := target_incoming_window s,
                              ff_next_outgoing_id := next_outgoing_id s,
                              ff_outgoing_window := outgoing_window s\<rparr>]
         else incoming_window s' = incoming_window s - 1
              \<and> flow_frames (sent s') = flow_frames (sent s))"
proof -
  let ?s3 = "s\<lparr>next_incoming_id := Some (n + 1),
               remote_outgoing_window := remote_outgoing_window s - 1,
               incoming_window := incoming_window s - 1\<rparr>"
  from ok obtain fs w where fs: "list_all is_link_frame fs"
    and call: "link_incoming_transfer L l fr ?s3 = (None, (append_frames fs ?s3)\<lparr>link_world := w\<rparr>)"
    by (rule forwards_onlyD)
  let ?s4 = "(append_frames fs ?s3)\<lparr>link_world := w\<rparr>"
  have ff: "flow_frames fs = []" using fs by (simp add: link_frames_filtered)
  show ?thesis
  proof (cases "incoming_window s - 1 = 0")
    case True
    let ?s' = "outgoing_flow None (?s4\<lparr>incoming_window := target_incoming_window ?s4\<rparr>)"
    have "incoming_transfer L fr s = (None, ?s')"
      using nid h call True by (simp add: incoming_transfer_def Let_def append_frames_def)
    moreover have "flow_frames (sent ?s') = flow_frames (sent s) @
                  [empty_flow\<lparr>ff_next_incoming_id := Some (n + 1),
                              ff_incoming_window := target_incoming_window s,
                              ff_next_outgoing_id := next_outgoing_id s,
                              ff_outgoing_window := outgoing_window s\<rparr>]"
      using ff by (simp add: outgoing_flow_def sent_def send_def process_outgoing_frame_def
          append_frames_def frames_append comp_def)
    moreover have "next_incoming_id ?s' = Some (n + 1)"
      "remote_outgoing_window ?s' = remote_outgoing_window s - 1"
      "incoming_window ?s' = target_incoming_window s"
      by (simp_all add: outgoing_flow_def send_def append_frames_def)
    ultimately show ?thesis using True by simp
  next
    case False
    have "incoming_transfer L fr s = (None, ?s4)"
      using nid h call False by (simp add: incoming_transfer_def Let_def append_frames_def)
    moreover have "flow_frames (sent ?s4) = flow_frames (sent s)"
      using ff by (simp add: sent_def append_frames_def frames_append comp_def)
    moreover have "next_incoming_id ?s4 = Some (n + 1)"
      "remote_outgoing_window ?s4 = remote_outgoing_window s - 1"
      "incoming_window ?s4 = incoming_window s - 1"
      by (simp_all add: append_frames_def)
    ultimately show ?thesis using False by simp
  qed
qed

text \<open>
  The theorem on a mapped session with \<open>incoming_window = 1\<close> whose receiver link the peer
  has attached on handle 0: after one Transfer the window is back at its target of 1 and
  one Flow frame has left.
\<close>

theorem incoming_transfer_counts_witness:
  "state receiving_session = MAPPED
   \<and> next_incoming_id receiving_session = Some 0
   \<and> dict_get (input_handles receiving_session) (tf_handle (transfer_on 0))
        = Inr (new_link ''receiver'' Receiver 1 ''source'')
   \<and> incoming_window receiving_session = 1
   \<and> (\<exists>s'. incoming_transfer quiet_links (transfer_on 0) receiving_session = (None, s')
        \<and> next_incoming_id s' = Some 1
        \<and> remote_outgoing_window s' = 4
        \<and> incoming_window s' = 1
        \<and> length (flow_frames (sent s')) = 1)"
proof -
  let ?l = "new_link ''receiver'' Receiver 1 ''source''"
  have h: "dict_get (input_handles receiving_session) (tf_handle (transfer_on 0)) = Inr ?l"
    by (simp add: receiving_session_eval dict_get_def transfer_on_def)
  from incoming_transfer_counts[OF receiving_session_eval(1) h quiet_links_forwards(4)]
  obtain s' where "incoming_transfer quiet_links (transfer_on 0) receiving_session = (None, s')"
    "next_incoming_id s' = Some (0 + 1)"
    "remote_outgoing_window s' = remote_outgoing_window receiving_session - 1"
    "incoming_window s' = target_incoming_window receiving_session"
    "length (flow_frames (sent s')) = 1"
    by (auto simp: receiving_session_eval)
  then show ?thesis using h by (auto simp: receiving_session_eval)
qed

subsection \<open>The Begin handshake\<close>

text \<open>
  What \<open>_incoming_begin\<close> does in its two branches, with links that only forward frames:
  from \<open>UNMAPPED\<close> through \<open>BEGIN_RCVD\<close> and one reply Begin to \<open>MAPPED\<close>, from \<open>BEGIN_SENT\<close> to
  \<open>MAPPED\<close> with no frame, \<open>next_incoming_id\<close> set from the peer's \<open>next_outgoing_id\<close> in both.
\<close>

lemma incoming_begin_steps:
  assumes ok: "\<forall>l. forwards_only (on_session_state_change L l)"
  shows "(state s = UNMAPPED \<longrightarrow>
           (\<exists>s1 s'. set_state L (Some BEGIN_RCVD)
                       (s\<lparr>handle_max := bf_handle_max fr,
                          next_incoming_id := Some (bf_next_outgoing_id fr),
                          remote_incoming_window := bf_incoming_window fr,
                          remote_outgoing_window := bf_outgoing_window fr,
                          remote_properties := bf_properties fr\<rparr>) = (None, s1)
              \<and> state s1 = BEGIN_RCVD
              \<and> set_state L (Some MAPPED) (outgoing_begin s1) = (None, s')
              \<and> incoming_begin L fr s = (None, s')
              \<and> state s' = MAPPED
              \<and> begin_frames (sent s') = begin_frames (sent s) @
                   [\<lparr>bf_remote_channel = remote_channel s,
                     bf_next_outgoing_id = next_outgoing_id s,
                     bf_incoming_window = incoming_window s,
                     bf_outgoing_window = outgoing_window s,
                     bf_handle_max = bf_handle_max fr,
                     bf_offered_capabilities = offered_capabilities s,
                     bf_desired_capabilities = None,
                     bf_properties = properties s\<rparr>]
              \<and> next_incoming_id s' = Some (bf_next_outgoing_id fr)
              \<and> remote_channel s' = remote_channel s))
       \<and> (state s = BEGIN_SENT \<longrightarrow>
           (\<exists>s'. incoming_begin L fr s = (None, s')
              \<and> state s' = MAPPED
              \<and> begin_frames (sent s') = begin_frames (sent s)
              \<and> next_incoming_id s' = Some (bf_next_outgoing_id fr)
              \<and> remote_channel s' = bf_remote_channel fr))"
proof (intro conjI impI)
  have ok': "forwards_only (on_session_state_change L l)" for l using ok by simp
  note step = set_state_forwards[of L, OF ok']
  assume u: "state s = UNMAPPED"
  let ?s5 = "s\<lparr>handle_max := bf_handle_max fr,
                next_incoming_id := Some (bf_next_outgoing_id fr),
                remote_incoming_window := bf_incoming_window fr,
                remote_outgoing_window := bf_outgoing_window fr,
                remote_properties := bf_properties fr\<rparr>"
  obtain fs1 w1 where 1: "list_all is_link_frame fs1"
    "set_state L (Some BEGIN_RCVD) ?s5 = (None, (append_frames fs1 (?s5\<lparr>state := BEGIN_RCVD\<rparr>))\<lparr>link_world := w1\<rparr>)"
    by (rule step)
  let ?s1 = "(append_frames fs1 (?s5\<lparr>state := BEGIN_RCVD\<rparr>))\<lparr>link_world := w1\<rparr>"
  obtain fs2 w2 where 2: "list_all is_link_frame fs2"
    "set_state L (Some MAPPED) (outgoing_begin ?s1)
       = (None, (append_frames fs2 ((outgoing_begin ?s1)\<lparr>state := MAPPED\<rparr>))\<lparr>link_world := w2\<rparr>)"
    by (rule step)
  let ?s' = "(append_frames fs2 ((outgoing_begin ?s1)\<lparr>state := MAPPED\<rparr>))\<lparr>link_world := w2\<rparr>"
  have run: "incoming_begin L fr s = (None, ?s')"
    using u 1(2) 2(2) by (simp add: incoming_begin_def Let_def seq_def pure_def)
  have st1: "state ?s1 = BEGIN_RCVD" by (simp add: append_frames_def)
  have fields: "state ?s' = MAPPED" "next_incoming_id ?s' = Some (bf_next_outgoing_id fr)"
    "remote_channel ?s' = remote_channel s"
    by (simp_all add: append_frames_def outgoing_begin_def send_def)
  have frames: "begin_frames (sent ?s') = begin_frames (sent s) @
                   [\<lparr>bf_remote_channel = remote_channel s,
                     bf_next_outgoing_id = next_outgoing_id s,
                     bf_incoming_window = incoming_window s,
                     bf_outgoing_window = outgoing_window s,
                     bf_handle_max = bf_handle_max fr,
                     bf_offered_capabilities = offered_capabilities s,
                     bf_desired_capabilities = None,
                     bf_properties = properties s\<rparr>]"
    using 1(1) 2(1)
    by (simp add: sent_def append_frames_def outgoing_begin_def send_def process_outgoing_frame_def
        frames_append link_frames_filtered comp_def)
  show "\<exists>s1 s'. set_state L (Some BEGIN_RCVD) ?s5 = (None, s1)
              \<and> state s1 = BEGIN_RCVD
              \<and> set_state L (Some MAPPED) (outgoing_begin s1) = (None, s')
              \<and> incoming_begin L fr s = (None, s')
              \<and> state s' = MAPPED
              \<and> begin_frames (sent s') = begin_frames (sent s) @
                   [\<lparr>bf_remote_channel = remote_channel s,
                     bf_next_outgoing_id = next_outgoing_id s,
                     bf_incoming_window = incoming_window s,
                     bf_outgoing_window = outgoing_window s,
                     bf_handle_max = bf_handle_max fr,
                     bf_offered_capabilities = offered_capabilities s,
                     bf_desired_capabilities = None,
                     bf_properties = properties s\<rparr>]
              \<and> next_incoming_id s' = Some (bf_next_outgoing_id fr)
              \<and> remote_channel s' = remote_channel s"
    using 1(2) st1 2(2) run fields frames
    by (intro exI[of _ ?s1] exI[of _ ?s']) blast
next
  have ok': "forwards_only (on_session_state_change L l)" for l using ok by simp
  note step = set_state_forwards[of L, OF ok']
  assume b: "state s = BEGIN_SENT"
  let ?s6 = "s\<lparr>handle_max := bf_handle_max fr,
                next_incoming_id := Some (bf_next_outgoing_id fr),
                remote_incoming_window := bf_incoming_window fr,
                remote_outgoing_window := bf_outgoing_window fr,
                remote_properties := bf_properties fr,
                remote_channel := bf_remote_channel fr\<rparr>"
  obtain fs w where 1: "list_all is_link_frame fs"
    "set_state L (Some MAPPED) ?s6 = (None, (append_frames fs (?s6\<lparr>state := MAPPED\<rparr>))\<lparr>link_world := w\<rparr>)"
    by (rule step)
  let ?s' = "(append_frames fs (?s6\<lparr>state := MAPPED\<rparr>))\<lparr>link_world := w\<rparr>"
  have run: "incoming_begin L fr s = (None, ?s')"
    using b 1(2) by (simp add: incoming_begin_def Let_def)
  have fields: "state ?s' = MAPPED" "next_incoming_id ?s' = Some (bf_next_outgoing_id fr)"
    "remote_channel ?s' = bf_remote_channel fr"
    by (simp_all add: append_frames_def)
  have frames: "begin_frames (sent ?s') = begin_frames (sent s)"
    using 1(1)
    by (simp add: sent_def append_frames_def frames_append link_frames_filtered comp_def)
  show "\<exists>s'. incoming_begin L fr s = (None, s')
              \<and> state s' = MAPPED
              \<and> begin_frames (sent s') = begin_frames (sent s)
              \<and> next_incoming_id s' = Some (bf_next_outgoing_id fr)
              \<and> remote_channel s' = bf_remote_channel fr"
    using run fields frames by (intro exI[of _ ?s']) blast
qed

text \<open>
  C8. The claim is that in both arrival orders the session ends \<open>MAPPED\<close> with
  \<open>remote_channel\<close> taken from the peer's Begin frame. Only the \<open>BEGIN_SENT\<close> branch of
  \<open>_incoming_begin\<close> assigns \<open>remote_channel\<close>; the \<open>UNMAPPED\<close> branch does not, although the
  reply it sends is built by \<open>_outgoing_begin\<close> to carry \<open>self.remote_channel\<close> in the state
  \<open>BEGIN_RCVD\<close>. A session that was mapped on remote channel 0 and then ended by the peer's
  End is \<open>UNMAPPED\<close>; a Begin by which the peer opens a session, with no remote channel,
  leaves it \<open>MAPPED\<close> with the old \<open>remote_channel\<close> 0, which the reply Begin carries. A
  fresh session that receives a Begin naming remote channel 0 ends \<open>MAPPED\<close> with
  \<open>remote_channel\<close> \<open>None\<close>, and its reply Begin carries \<open>None\<close>. After \<open>begin()\<close> the same
  Begin sets \<open>remote_channel\<close> to 0.
\<close>

theorem incoming_begin_unmapped_remote_channel:
  "state reopened_session = UNMAPPED
   \<and> remote_channel reopened_session = Some 0
   \<and> bf_remote_channel (peer_initiated_begin 5) = None
   \<and> fst (incoming_begin quiet_links (peer_initiated_begin 5) reopened_session) = None
   \<and> state (snd (incoming_begin quiet_links (peer_initiated_begin 5) reopened_session)) = MAPPED
   \<and> remote_channel (snd (incoming_begin quiet_links (peer_initiated_begin 5) reopened_session))
        = Some 0
   \<and> map bf_remote_channel
        (begin_frames (sent (snd (incoming_begin quiet_links (peer_initiated_begin 5) reopened_session))))
        = [None, Some 0]
   \<and> state (fresh_session 512 7) = UNMAPPED
   \<and> bf_remote_channel (peer_begin 5) = Some 0
   \<and> fst (incoming_begin quiet_links (peer_begin 5) (fresh_session 512 7)) = None
   \<and> state (snd (incoming_begin quiet_links (peer_begin 5) (fresh_session 512 7))) = MAPPED
   \<and> remote_channel (snd (incoming_begin quiet_links (peer_begin 5) (fresh_session 512 7))) = None
   \<and> map bf_remote_channel
        (begin_frames (sent (snd (incoming_begin quiet_links (peer_begin 5) (fresh_session 512 7)))))
        = [None]
   \<and> state (snd (begin_session quiet_links (fresh_session 512 7))) = BEGIN_SENT
   \<and> remote_channel (mapped_session 512 5) = Some 0"
  by (simp add: fixture_defs op_defs peer_initiated_begin_def reopened_session_def
       incoming_end_def outgoing_end_def sent_def)

end
